theory Spec2Isabelle
  imports Complex_Main "HOL-Library.AList"
begin

section \<open>JavaScript values\<close>

text \<open>
  The services of docroute are JavaScript (ES modules, hence strict mode). The candidate
  classification is whatever \<^verbatim>\<open>JSON.parse\<close> returns, so its fields range over all
  JSON-shaped JavaScript values. Numbers are IEEE doubles in the source; here a finite double
  is the \<^typ>\<open>real\<close> it denotes (the two zeros are one value: they compare equal, both are
  falsy and both are written \<^verbatim>\<open>0\<close> in JSON), and the three special doubles are
  constructors. A decimal the source writes or reads is rounded to the nearest double by
  \<open>toDouble\<close> below.
  A \<^typ>\<open>char\<close> stands for one UTF-16 code unit below 256, so \<^const>\<open>length\<close> is
  JavaScript's \<^verbatim>\<open>.length\<close> on such strings.
  An object is its list of own properties in insertion order.
\<close>

datatype jsnum = NaN | PosInf | NegInf | Fin real

datatype jsval =
    JUndefined
  | JNull
  | JBool bool
  | JNum jsnum
  | JStr string
  | JArr "jsval list"
  | JObj "(string \<times> jsval) list"

type_synonym jsobj = "(string \<times> jsval) list"

text \<open>
  What a \<^verbatim>\<open>throw\<close> carries: an \<^verbatim>\<open>ApiError(statusCode, message)\<close> of the repository,
  a \<^verbatim>\<open>TypeError\<close> raised by the language, or any other \<^verbatim>\<open>Error\<close> (a library's, or
  \<^verbatim>\<open>new Error(...)\<close>). \<^verbatim>\<open>error instanceof ApiError\<close> holds for the first only.
\<close>

datatype js_error = ApiError nat string | TypeError string | Error string

fun instanceofApiError :: "js_error \<Rightarrow> bool" where
  "instanceofApiError (ApiError _ _) = True"
| "instanceofApiError _ = False"

text \<open>Relational comparison of numbers: every comparison with \<open>NaN\<close> is false.\<close>

fun js_lt :: "jsnum \<Rightarrow> jsnum \<Rightarrow> bool" where
  "js_lt NaN _ = False"
| "js_lt _ NaN = False"
| "js_lt (Fin x) (Fin y) = (x < y)"
| "js_lt _ NegInf = False"
| "js_lt NegInf _ = True"
| "js_lt PosInf _ = False"
| "js_lt (Fin _) PosInf = True"

definition js_gt :: "jsnum \<Rightarrow> jsnum \<Rightarrow> bool" where
  "js_gt a b = js_lt b a"

definition js_ge :: "jsnum \<Rightarrow> jsnum \<Rightarrow> bool" where
  "js_ge a b = (a \<noteq> NaN \<and> b \<noteq> NaN \<and> \<not> js_lt a b)"

definition isNaN :: "jsnum \<Rightarrow> bool" where
  "isNaN n = (n = NaN)"

subsection \<open>Rounding to a double\<close>

text \<open>
  The value of a decimal literal, in the source, in JSON or in the string \<^verbatim>\<open>parseFloat\<close>
  reads, is the double nearest to it, ties going to the even significand (IEEE 754 binary64:
  53 significant bits, least exponent \<open>-1022\<close>, greatest exponent 1023).
  \<open>binaryExponent a\<close> is the exponent of the binade of \<open>a > 0\<close>, found by halving or
  doubling and never below \<open>-1022\<close>, so that below the least normal double the spacing is
  that of the subnormals. The result is infinite when the rounded value reaches \<open>2 ^ 1024\<close>:
  the exponent is past 1023, or it is 1023 and the significand has rounded up to \<open>2 ^ 53\<close>.
\<close>

fun normDown :: "nat \<Rightarrow> real \<Rightarrow> int \<Rightarrow> int" where
  "normDown 0 a e = e"
| "normDown (Suc n) a e = (if 2 \<le> a then normDown n (a / 2) (e + 1) else e)"

fun normUp :: "nat \<Rightarrow> real \<Rightarrow> int \<Rightarrow> int" where
  "normUp 0 a e = e"
| "normUp (Suc n) a e = (if a < 1 then normUp n (a * 2) (e - 1) else e)"

definition binaryExponent :: "real \<Rightarrow> int" where
  "binaryExponent a = (if 1 \<le> a then normDown 1024 a 0 else normUp 1022 a 0)"

definition pow2 :: "int \<Rightarrow> real" where
  "pow2 e = (if 0 \<le> e then 2 ^ nat e else 1 / 2 ^ nat (- e))"

definition roundHalfEven :: "real \<Rightarrow> int" where
  "roundHalfEven x =
     (let f = \<lfloor>x\<rfloor>; d = x - of_int f
      in if d < 1 / 2 then f else if 1 / 2 < d then f + 1 else if even f then f else f + 1)"

definition toDouble :: "real \<Rightarrow> jsnum" where
  "toDouble x =
     (if x = 0 then Fin 0
      else (let a = \<bar>x\<bar>;
                e = binaryExponent a;
                ulp = pow2 (e - 52);
                m = roundHalfEven (a / ulp);
                v = of_int m * ulp
            in if 1024 \<le> e \<or> (e = 1023 \<and> m = 2 ^ 53) then (if x < 0 then NegInf else PosInf)
               else Fin (if x < 0 then - v else v)))"

text \<open>\<^verbatim>\<open>ToBoolean\<close>: what \<^verbatim>\<open>!x\<close> and \<^verbatim>\<open>x || y\<close> test.\<close>

fun truthy :: "jsval \<Rightarrow> bool" where
  "truthy JUndefined = False"
| "truthy JNull = False"
| "truthy (JBool b) = b"
| "truthy (JNum n) = (n \<noteq> NaN \<and> n \<noteq> Fin 0)"
| "truthy (JStr s) = (s \<noteq> [])"
| "truthy (JArr _) = True"
| "truthy (JObj _) = True"

definition js_or :: "jsval \<Rightarrow> jsval \<Rightarrow> jsval" where
  "js_or a b = (if truthy a then a else b)"

text \<open>
  Reading \<^verbatim>\<open>result.key\<close> gives the own property or \<^verbatim>\<open>undefined\<close> (none of the keys
  the services read from a candidate is inherited from \<^verbatim>\<open>Object.prototype\<close>); writing
  \<^verbatim>\<open>result.key = v\<close> replaces the property where it stands or appends a new one.
\<close>

definition getProp :: "jsobj \<Rightarrow> string \<Rightarrow> jsval" where
  "getProp obj k = (case map_of obj k of None \<Rightarrow> JUndefined | Some v \<Rightarrow> v)"

definition setProp :: "string \<Rightarrow> jsval \<Rightarrow> jsobj \<Rightarrow> jsobj" where
  "setProp k v obj = AList.update k v obj"

fun isArray :: "jsval \<Rightarrow> bool" where
  "isArray (JArr _) = True"
| "isArray _ = False"

fun isString :: "jsval \<Rightarrow> bool" where
  "isString (JStr _) = True"
| "isString _ = False"

section \<open>Strings\<close>

text \<open>
  \<^verbatim>\<open>String.prototype.toLowerCase\<close> on code units below 256: the ASCII capitals and the
  Latin-1 capitals (U+00C0 to U+00DE without the multiplication sign U+00D7) move up by 32.
\<close>

definition toLowerCase_char :: "char \<Rightarrow> char" where
  "toLowerCase_char c =
     (let n = (of_char c :: nat)
      in if (65 \<le> n \<and> n \<le> 90) \<or> (192 \<le> n \<and> n \<le> 222 \<and> n \<noteq> 215)
         then char_of (n + 32) else c)"

definition toLowerCase :: "string \<Rightarrow> string" where
  "toLowerCase s = map toLowerCase_char s"

text \<open>
  White space and line terminators below 256, as \<^verbatim>\<open>trim\<close> and \<^verbatim>\<open>parseFloat\<close> skip them:
  TAB, LF, VT, FF, CR, SPACE and NBSP.
\<close>

definition isWhiteSpace :: "char \<Rightarrow> bool" where
  "isWhiteSpace c = ((of_char c :: nat) \<in> {9, 10, 11, 12, 13, 32, 160})"

definition trimStart :: "string \<Rightarrow> string" where
  "trimStart s = dropWhile isWhiteSpace s"

definition trim :: "string \<Rightarrow> string" where
  "trim s = rev (dropWhile isWhiteSpace (rev (dropWhile isWhiteSpace s)))"

text \<open>\<^verbatim>\<open>Array.prototype.join\<close> on an array of strings.\<close>

fun join :: "string \<Rightarrow> string list \<Rightarrow> string" where
  "join sep [] = []"
| "join sep [x] = x"
| "join sep (x # y # ys) = x @ sep @ join sep (y # ys)"

section \<open>parseFloat\<close>

definition isDigit :: "char \<Rightarrow> bool" where
  "isDigit c = (48 \<le> (of_char c :: nat) \<and> (of_char c :: nat) \<le> 57)"

definition digitsVal :: "string \<Rightarrow> nat" where
  "digitsVal ds = foldl (\<lambda>a c. 10 * a + ((of_char c :: nat) - 48)) 0 ds"

text \<open>
  The exponent part \<^verbatim>\<open>e[+-]digits\<close> at the head of a string, as a power of ten to
  multiply with; no digits after the \<^verbatim>\<open>e\<close> means there is no exponent part and the
  literal ended before it.
\<close>

definition exponentFactor :: "string \<Rightarrow> real" where
  "exponentFactor r =
     (case r of
        [] \<Rightarrow> 1
      | e # r1 \<Rightarrow>
          if e = CHR ''e'' \<or> e = CHR ''E'' then
            (let (neg, r2) =
                   (case r1 of
                      [] \<Rightarrow> (False, r1)
                    | c # r' \<Rightarrow> if c = CHR ''-'' then (True, r')
                                else if c = CHR ''+'' then (False, r') else (False, r1));
                 es = takeWhile isDigit r2
             in if es = [] then 1
                else if neg then 1 / 10 ^ digitsVal es else 10 ^ digitsVal es)
          else 1)"

text \<open>
  The longest prefix that is a \<^verbatim>\<open>StrUnsignedDecimalLiteral\<close> other than
  \<^verbatim>\<open>Infinity\<close>: digits, an optional fraction, an optional exponent, with a digit
  before or after the point.
\<close>

definition parseUnsignedDecimal :: "string \<Rightarrow> real option" where
  "parseUnsignedDecimal u =
     (let ip = takeWhile isDigit u;
          r1 = dropWhile isDigit u;
          (fp, r2) =
             (case r1 of
                [] \<Rightarrow> ([], r1)
              | c # r \<Rightarrow> if c = CHR ''.'' then (takeWhile isDigit r, dropWhile isDigit r)
                         else ([], r1))
      in if ip = [] \<and> fp = [] then None
         else Some ((real (digitsVal ip) + real (digitsVal fp) / 10 ^ length fp)
                      * exponentFactor r2))"

definition parseFloat_str :: "string \<Rightarrow> jsnum" where
  "parseFloat_str s =
     (let t = trimStart s;
          (neg, u) =
             (case t of
                [] \<Rightarrow> (False, t)
              | c # r \<Rightarrow> if c = CHR ''-'' then (True, r)
                         else if c = CHR ''+'' then (False, r) else (False, t))
      in if take 8 u = ''Infinity'' then (if neg then NegInf else PosInf)
         else (case parseUnsignedDecimal u of
                 None \<Rightarrow> NaN
               | Some x \<Rightarrow> toDouble (if neg then - x else x)))"

text \<open>
  \<^verbatim>\<open>parseFloat(v)\<close> is \<^verbatim>\<open>ToString(v)\<close> followed by the prefix parse.
  \<^verbatim>\<open>ToString\<close> of a JSON-shaped object throws a \<^verbatim>\<open>TypeError\<close> when the object has an
  own property \<^verbatim>\<open>toString\<close> (never callable, and the inherited \<^verbatim>\<open>valueOf\<close> returns the
  object), and is \<^verbatim>\<open>[object Object]\<close> otherwise; of an array it is the elements'
  strings joined by commas, \<^verbatim>\<open>null\<close> and \<^verbatim>\<open>undefined\<close> giving the empty string,
  and throws when an element's does.
\<close>

fun toStringThrows :: "jsval \<Rightarrow> bool" where
  "toStringThrows (JObj kvs) = (map_of kvs ''toString'' \<noteq> None)"
| "toStringThrows (JArr xs) = (\<exists>x \<in> set xs. toStringThrows x)"
| "toStringThrows _ = False"

text \<open>
  The number read from the string of a value. The string of a number reads back as that
  number; the string of an array starts with the string of its first element, and the comma
  that follows ends every literal, so the array reads as its first element does
  (\<^verbatim>\<open>parseFloat([0.7, 1])\<close> is \<^verbatim>\<open>0.7\<close>).
\<close>

fun parseFloat_val :: "jsval \<Rightarrow> jsnum" where
  "parseFloat_val (JNum n) = n"
| "parseFloat_val (JStr s) = parseFloat_str s"
| "parseFloat_val (JArr (x # xs)) = parseFloat_val x"
| "parseFloat_val _ = NaN"

definition parseFloat :: "jsval \<Rightarrow> js_error + jsnum" where
  "parseFloat v =
     (if toStringThrows v then Inl (TypeError ''Cannot convert object to primitive value'')
      else Inr (parseFloat_val v))"

section \<open>Configuration (config)\<close>

definition documentTypes_OTHER :: string where
  "documentTypes_OTHER = ''other''"

definition departments_GENERAL :: string where
  "departments_GENERAL = ''general''"

definition validDocumentTypes :: "string list" where
  "validDocumentTypes =
     [''invoice'', ''purchase_order'', ''contract'', ''receipt'', ''proposal'', ''agreement'',
      ''other'']"

definition validDepartments :: "string list" where
  "validDepartments = [''finance'', ''procurement'', ''legal'', ''operations'', ''general'']"

definition confidenceLevels_HIGH :: jsnum where
  "confidenceLevels_HIGH = toDouble (8 / 10)"

definition confidenceLevels_MEDIUM :: jsnum where
  "confidenceLevels_MEDIUM = toDouble (6 / 10)"

section \<open>Result sanitizer (GeminiService)\<close>

definition validateConfidence :: "jsval \<Rightarrow> js_error + jsnum" where
  "validateConfidence confidence =
     (case parseFloat confidence of
        Inl e \<Rightarrow> Inl e
      | Inr numConfidence \<Rightarrow>
          if isNaN numConfidence \<or> js_lt numConfidence (Fin 0) \<or> js_gt numConfidence (Fin 1)
          then Inr (Fin (5 / 10))
          else Inr numConfidence)"

text \<open>
  \<^verbatim>\<open>result.f.toLowerCase()\<close> on a truthy value: a string has the method; a number, a
  boolean, an array or an object decoded from JSON has none, and calling \<^verbatim>\<open>undefined\<close>
  (or an own property, which is never a function) throws.
\<close>

fun call_toLowerCase :: "string \<Rightarrow> jsval \<Rightarrow> js_error + string" where
  "call_toLowerCase f (JStr s) = Inr (toLowerCase s)"
| "call_toLowerCase f _ = Inl (TypeError (''result.'' @ f @ ''.toLowerCase is not a function''))"

definition validateClassificationResult :: "jsobj \<Rightarrow> js_error + jsobj" where
  "validateClassificationResult result =
     (case (if \<not> truthy (getProp result ''documentType'')
            then Inr (setProp ''documentType'' (JStr documentTypes_OTHER) result)
            else (case call_toLowerCase ''documentType'' (getProp result ''documentType'') of
                    Inl e \<Rightarrow> Inl e
                  | Inr l \<Rightarrow>
                      if l \<notin> set validDocumentTypes
                      then Inr (setProp ''documentType'' (JStr documentTypes_OTHER) result)
                      else Inr (setProp ''documentType'' (JStr l) result))) of
        Inl e \<Rightarrow> Inl e
      | Inr r1 \<Rightarrow>
     (case (if \<not> truthy (getProp r1 ''department'')
            then Inr (setProp ''department'' (JStr departments_GENERAL) r1)
            else (case call_toLowerCase ''department'' (getProp r1 ''department'') of
                    Inl e \<Rightarrow> Inl e
                  | Inr l \<Rightarrow>
                      if l \<notin> set validDepartments
                      then Inr (setProp ''department'' (JStr departments_GENERAL) r1)
                      else Inr (setProp ''department'' (JStr l) r1))) of
        Inl e \<Rightarrow> Inl e
      | Inr r2 \<Rightarrow>
     (case validateConfidence (getProp r2 ''confidence'') of
        Inl e \<Rightarrow> Inl e
      | Inr c \<Rightarrow>
     (let r3 = setProp ''confidence'' (JNum c) r2
      in case validateConfidence (getProp r3 ''routingConfidence'') of
        Inl e \<Rightarrow> Inl e
      | Inr rc \<Rightarrow>
     (let r4 = setProp ''routingConfidence'' (JNum rc) r3;
          r5 = setProp ''extractedData'' (js_or (getProp r4 ''extractedData'') (JObj [])) r4;
          r6 = setProp ''reasoning''
                 (js_or (getProp r5 ''reasoning'') (JStr ''Classification completed'')) r5;
          r7 = setProp ''suggestedActions''
                 (if isArray (getProp r6 ''suggestedActions'')
                  then getProp r6 ''suggestedActions'' else JArr []) r6
      in Inr r7)))))"

section \<open>Classifier gateway (GeminiService)\<close>

text \<open>
  What the process does not own is a parameter: the generative model (one prompt in, the
  reply's text out, or a failure of the call: the library's errors are never an
  \<^verbatim>\<open>ApiError\<close> of the repository), \<^verbatim>\<open>JSON.parse\<close> (applied only to text that starts
  with an opening brace, so a value it returns is an object; \<open>None\<close> is its
  \<^verbatim>\<open>SyntaxError\<close>), the PDF parser (the \<^verbatim>\<open>text\<close> of the parsed document), the
  rendering of a number in a template string, the clock, and the paths the file system
  refuses to unlink.
\<close>

record env =
  generateContent :: "string \<Rightarrow> string + string"
  JSON_parse :: "string \<Rightarrow> jsobj option"
  pdfParse :: "string \<Rightarrow> string + string"
  numberToString :: "real \<Rightarrow> string"
  toISOString_now :: string
  unlinkFails :: "string \<Rightarrow> bool"

text \<open>
  The state the services act on: the files on disk with their contents (a file that is
  there can be read), the prompts sent to the model so far (one entry per call of
  \<^verbatim>\<open>generateContent\<close>), and the paths handed to \<^verbatim>\<open>fs.unlink\<close>. Console output is
  not modelled.
\<close>

record world =
  files :: "string \<Rightarrow> string option"
  prompts :: "string list"
  unlinked :: "string list"

definition classificationPrompt :: string where
  "classificationPrompt =
     ''\<newline>'' @
     ''You are a professional document classification and routing assistant for back-office operations. \<newline>'' @
     ''\<newline>'' @
     ''Analyze the provided document content and classify it according to these document types:\<newline>'' @
     ''- invoice: Bills for goods/services provided\<newline>'' @
     ''- purchase_order: Orders for goods/services to be purchased\<newline>'' @
     ''- contract: Legal agreements and contracts\<newline>'' @
     ''- receipt: Payment confirmations and receipts\<newline>'' @
     ''- proposal: Business proposals and quotes\<newline>'' @
     ''- agreement: Various types of agreements\<newline>'' @
     ''- other: Documents that don't fit the above categories\<newline>'' @
     ''\<newline>'' @
     ''Route documents to these departments:\<newline>'' @
     ''- finance: Invoices, receipts, financial statements, payment records, billing documents\<newline>'' @
     ''- procurement: Purchase orders, vendor agreements, supplier contracts\<newline>'' @
     ''- legal: Contracts, legal agreements, compliance documents, terms of service\<newline>'' @
     ''- operations: Operational agreements, service contracts, facility management\<newline>'' @
     ''- general: Documents that don't fit specific departments\<newline>'' @
     ''\<newline>'' @
     ''IMPORTANT: You must ALWAYS return your analysis in the following JSON format, even if you cannot extract full text content:\<newline>'' @
     ''\<newline>'' @
     ''{\<newline>'' @
     ''    \"documentType\": \"classified_type\",\<newline>'' @
     ''    \"confidence\": 0.95,\<newline>'' @
     ''    \"department\": \"assigned_department\", \<newline>'' @
     ''    \"routingConfidence\": 0.90,\<newline>'' @
     ''    \"extractedData\": {\<newline>'' @
     ''        \"key_information\": \"extracted values\"\<newline>'' @
     ''    },\<newline>'' @
     ''    \"reasoning\": \"Brief explanation of classification logic\",\<newline>'' @
     ''    \"suggestedActions\": [\"action1\", \"action2\"]\<newline>'' @
     ''}\<newline>'' @
     ''\<newline>'' @
     ''If you cannot determine the document type from the provided content, use \"other\" as documentType with lower confidence. If PDF text extraction is needed, mention it in the reasoning field. NEVER respond with plain text - always return valid JSON.\<newline>'' @
     ''\<newline>'' @
     ''Confidence scores should be between 0 and 1. Be thorough in extracting relevant data like amounts, dates, vendor names, etc.\<newline>'' @
     ''\<newline>'' @
     ''Document content:\<newline>''"

text \<open>
  \<^verbatim>\<open>text.match(/\{[\s\S]*\}/)\<close>: the star is greedy and the class matches every
  character, so the match runs from the first opening brace to the last closing brace of the
  text; there is none when no closing brace follows the first opening one.
\<close>

definition jsonMatch :: "string \<Rightarrow> string option" where
  "jsonMatch text =
     (let from = dropWhile (\<lambda>c. c \<noteq> CHR ''{'') text;
          span = rev (dropWhile (\<lambda>c. c \<noteq> CHR ''}'') (rev from))
      in if span = [] then None else Some span)"

definition fallbackClassification :: jsobj where
  "fallbackClassification =
     [(''documentType'', JStr ''other''),
      (''confidence'', JNum (toDouble (3 / 10))),
      (''department'', JStr ''general''),
      (''routingConfidence'', JNum (toDouble (3 / 10))),
      (''extractedData'',
         JObj [(''note'', JStr ''AI could not classify this document properly'')]),
      (''reasoning'', JStr ''Classification failed due to non-JSON response from AI model''),
      (''suggestedActions'',
         JArr [JStr ''Manual review required'', JStr ''Check document format and content''])]"

text \<open>The inner \<^verbatim>\<open>try\<close>/\<^verbatim>\<open>catch\<close>: the candidate decoded from the reply, or the fallback.\<close>

definition parseReply :: "env \<Rightarrow> string \<Rightarrow> jsobj" where
  "parseReply e text =
     (case jsonMatch text of
        None \<Rightarrow> fallbackClassification
      | Some m \<Rightarrow>
          (case JSON_parse e m of
             None \<Rightarrow> fallbackClassification
           | Some classificationResult \<Rightarrow> classificationResult))"

text \<open>
  The \<^verbatim>\<open>catch\<close> that ends every service method: an \<^verbatim>\<open>ApiError\<close> is thrown on,
  anything else becomes an \<^verbatim>\<open>ApiError(500, message)\<close>.
\<close>

definition rethrow :: "string \<Rightarrow> js_error \<Rightarrow> js_error" where
  "rethrow message error = (if instanceofApiError error then error else ApiError 500 message)"

definition classifyDocument :: "env \<Rightarrow> jsval \<Rightarrow> world \<Rightarrow> (js_error + jsobj) \<times> world" where
  "classifyDocument e documentContent w =
     (case documentContent of
        JStr content \<Rightarrow>
          if content = []
          then (Inl (ApiError 400 ''Document content is required and must be a string''), w)
          else
            (let prompt = classificationPrompt @ content;
                 w' = w\<lparr>prompts := prompts w @ [prompt]\<rparr>
             in case generateContent e prompt of
                  Inl msg \<Rightarrow>
                    (Inl (rethrow ''Failed to classify document with AI model'' (Error msg)), w')
                | Inr text \<Rightarrow>
                    (case validateClassificationResult (parseReply e text) of
                       Inl err \<Rightarrow>
                         (Inl (rethrow ''Failed to classify document with AI model'' err), w')
                     | Inr r \<Rightarrow> (Inr r, w')))
      | _ \<Rightarrow> (Inl (ApiError 400 ''Document content is required and must be a string''), w))"

section \<open>Document service (DocumentService)\<close>

record cfg =
  maxFileSize :: nat
  allowedFileTypes :: "string list"

text \<open>The values of \<^verbatim>\<open>config\<close> when the environment sets neither variable.\<close>

definition config :: cfg where
  "config = \<lparr>maxFileSize = 10 * 1024 * 1024,
             allowedFileTypes = [''application/pdf'', ''text/plain'']\<rparr>"

text \<open>The file object the upload middleware hands over.\<close>

record upload =
  file_path :: string
  file_size :: nat
  file_mimetype :: string
  file_originalname :: string

text \<open>
  A table written as an object literal is read with \<^verbatim>\<open>table[key]\<close>, which looks the
  key up in the literal's own properties and then in \<^verbatim>\<open>Object.prototype\<close>. The
  properties every object inherits from there are functions, but for \<^verbatim>\<open>__proto__\<close>,
  which reads as the prototype object itself; all of them are truthy. In a template string
  a built-in function renders as \<^verbatim>\<open>function name() { [native code] }\<close> (the rendering of
  Node.js) and the prototype as \<^verbatim>\<open>[object Object]\<close>.
\<close>

definition Object_prototype_functions :: "(string \<times> string) list" where
  "Object_prototype_functions =
     [(''constructor'', ''Object''),
      (''__defineGetter__'', ''__defineGetter__''),
      (''__defineSetter__'', ''__defineSetter__''),
      (''hasOwnProperty'', ''hasOwnProperty''),
      (''__lookupGetter__'', ''__lookupGetter__''),
      (''__lookupSetter__'', ''__lookupSetter__''),
      (''isPrototypeOf'', ''isPrototypeOf''),
      (''propertyIsEnumerable'', ''propertyIsEnumerable''),
      (''toString'', ''toString''),
      (''valueOf'', ''valueOf''),
      (''toLocaleString'', ''toLocaleString'')]"

datatype looked_up = Own string | Inherited_function string | Inherited_proto | Absent

definition lookupLiteral :: "(string \<times> string) list \<Rightarrow> string \<Rightarrow> looked_up" where
  "lookupLiteral table k =
     (case map_of table k of
        Some v \<Rightarrow> Own v
      | None \<Rightarrow>
          (case map_of Object_prototype_functions k of
             Some name \<Rightarrow> Inherited_function name
           | None \<Rightarrow> if k = ''__proto__'' then Inherited_proto else Absent))"

definition supportedMimeTypes :: "(string \<times> string) list" where
  "supportedMimeTypes = [(''application/pdf'', ''pdf''), (''text/plain'', ''txt'')]"

definition readFile :: "world \<Rightarrow> string \<Rightarrow> js_error + string" where
  "readFile w filePath =
     (case files w filePath of
        None \<Rightarrow> Inl (Error ''ENOENT: no such file or directory'')
      | Some content \<Rightarrow> Inr content)"

definition extractTextFromPDF :: "env \<Rightarrow> world \<Rightarrow> string \<Rightarrow> js_error + string" where
  "extractTextFromPDF e w filePath =
     (case (case readFile w filePath of
              Inl err \<Rightarrow> Inl err
            | Inr dataBuffer \<Rightarrow>
                (case pdfParse e dataBuffer of
                   Inl msg \<Rightarrow> Inl (Error msg)
                 | Inr text \<Rightarrow>
                     if text = [] \<or> length (trim text) = 0
                     then Inl (ApiError 400
                            ''PDF file appears to be empty or contains no extractable text'')
                     else Inr text)) of
        Inl err \<Rightarrow> Inl (rethrow ''Failed to extract text from PDF file'' err)
      | Inr text \<Rightarrow> Inr text)"

definition extractTextFromTXT :: "world \<Rightarrow> string \<Rightarrow> js_error + string" where
  "extractTextFromTXT w filePath =
     (case (case readFile w filePath of
              Inl err \<Rightarrow> Inl err
            | Inr content \<Rightarrow>
                if content = [] \<or> length (trim content) = 0
                then Inl (ApiError 400 ''Text file is empty'')
                else Inr content) of
        Inl err \<Rightarrow> Inl (rethrow ''Failed to read text file'' err)
      | Inr content \<Rightarrow> Inr content)"

definition extractTextFromFile :: "env \<Rightarrow> world \<Rightarrow> string \<Rightarrow> string \<Rightarrow> js_error + string" where
  "extractTextFromFile e w filePath mimeType =
     (case (if filePath = [] then Inl (ApiError 400 ''File path is required'')
            else if files w filePath = None then Inl (ApiError 404 ''File not found'')
            else (case lookupLiteral supportedMimeTypes mimeType of
                    Absent \<Rightarrow> Inl (ApiError 400 (''Unsupported file type: '' @ mimeType))
                  | Own fileType \<Rightarrow>
                      (case (if fileType = ''pdf'' then extractTextFromPDF e w filePath
                             else if fileType = ''txt'' then extractTextFromTXT w filePath
                             else Inl (ApiError 400 ''Unsupported file format'')) of
                         Inl err \<Rightarrow> Inl err
                       | Inr extractedText \<Rightarrow>
                           if extractedText = [] \<or> length (trim extractedText) = 0
                           then Inl (ApiError 400
                                  ''No text content could be extracted from the file'')
                           else Inr extractedText)
                  | _ \<Rightarrow> Inl (ApiError 400 ''Unsupported file format''))) of
        Inl err \<Rightarrow> Inl (rethrow ''Failed to extract text from file'' err)
      | Inr extractedText \<Rightarrow> Inr extractedText)"

text \<open>
  Both flows cut the text the same way before they classify it:
  \<^verbatim>\<open>text.length > maxTextLength ? text.substring(0, maxTextLength) + '\n...(truncated)' : text\<close>.
\<close>

definition maxTextLength :: nat where
  "maxTextLength = 50000"

definition truncationMarker :: string where
  "truncationMarker = ''\<newline>...(truncated)''"

definition textToClassify :: "string \<Rightarrow> string" where
  "textToClassify text =
     (if length text > maxTextLength then take maxTextLength text @ truncationMarker else text)"

subsection \<open>Routing advisor\<close>

definition getConfidenceLevel :: "jsnum \<Rightarrow> string" where
  "getConfidenceLevel confidence =
     (if js_ge confidence confidenceLevels_HIGH then ''high''
      else if js_ge confidence confidenceLevels_MEDIUM then ''medium''
      else ''low'')"

definition departmentNames :: "(string \<times> string) list" where
  "departmentNames =
     [(''finance'', ''Finance Department''),
      (''procurement'', ''Procurement Department''),
      (''legal'', ''Legal Department''),
      (''operations'', ''Operations Department''),
      (''general'', ''General Administration'')]"

text \<open>
  \<^verbatim>\<open>departmentNames[department] || 'General Administration'\<close>, as the template strings
  render it. The display names of the table are non-empty, hence truthy.
\<close>

definition deptName :: "string \<Rightarrow> string" where
  "deptName department =
     (case lookupLiteral departmentNames department of
        Own name \<Rightarrow> if name = [] then ''General Administration'' else name
      | Inherited_function name \<Rightarrow> ''function '' @ name @ ''() { [native code] }''
      | Inherited_proto \<Rightarrow> ''[object Object]''
      | Absent \<Rightarrow> ''General Administration'')"

definition getRoutingRecommendation :: "string \<Rightarrow> jsnum \<Rightarrow> string" where
  "getRoutingRecommendation department confidence =
     (if js_ge confidence confidenceLevels_HIGH
      then ''Recommended for automatic routing to '' @ deptName department
      else if js_ge confidence confidenceLevels_MEDIUM
      then ''Suggested routing to '' @ deptName department @ '' - Manual review recommended''
      else ''Low confidence routing to '' @ deptName department @ '' - Manual review required'')"

text \<open>
  \<^verbatim>\<open>buildClassificationResult\<close> is only ever applied to an object that
  \<^verbatim>\<open>validateClassificationResult\<close> returned, whose two confidences are numbers and whose
  department is a string. The projections below read such an object; their value on any
  other object is a default of the model, not the coercion JavaScript would apply.
\<close>

definition numberProp :: "jsobj \<Rightarrow> string \<Rightarrow> jsnum" where
  "numberProp obj k = (case getProp obj k of JNum n \<Rightarrow> n | _ \<Rightarrow> NaN)"

definition stringProp :: "jsobj \<Rightarrow> string \<Rightarrow> string" where
  "stringProp obj k = (case getProp obj k of JStr s \<Rightarrow> s | _ \<Rightarrow> [])"

definition buildClassificationResult :: "jsobj \<Rightarrow> jsobj \<Rightarrow> jsobj" where
  "buildClassificationResult classification metadata =
     metadata @
     [(''documentType'', getProp classification ''documentType''),
      (''confidence'', getProp classification ''confidence''),
      (''department'', getProp classification ''department''),
      (''routingConfidence'', getProp classification ''routingConfidence''),
      (''extractedData'', getProp classification ''extractedData''),
      (''reasoning'', getProp classification ''reasoning''),
      (''suggestedActions'', getProp classification ''suggestedActions''),
      (''confidenceLevel'', JStr (getConfidenceLevel (numberProp classification ''confidence''))),
      (''routingRecommendation'',
         JStr (getRoutingRecommendation (stringProp classification ''department'')
                 (numberProp classification ''routingConfidence'')))]"

subsection \<open>The two flows\<close>

text \<open>
  \<^verbatim>\<open>cleanupTempFile\<close> calls \<^verbatim>\<open>fs.unlink\<close> and swallows its failure (it is only
  logged): the path has been handed to the file system either way, and the file is gone
  unless the file system refused.
\<close>

definition cleanupTempFile :: "env \<Rightarrow> world \<Rightarrow> string \<Rightarrow> world" where
  "cleanupTempFile e w filePath =
     w\<lparr>files := (if unlinkFails e filePath then files w else (files w)(filePath := None)),
       unlinked := unlinked w @ [filePath]\<rparr>"

definition processDocument :: "cfg \<Rightarrow> env \<Rightarrow> upload option \<Rightarrow> world \<Rightarrow> (js_error + jsobj) \<times> world" where
  "processDocument c e file w =
     (case file of
        None \<Rightarrow> (Inl (rethrow ''Failed to process document'' (ApiError 400 ''No file provided'')), w)
      | Some f \<Rightarrow>
          (let tempFilePath = file_path f;
               (res, w1) =
                 (if file_size f > maxFileSize c
                  then (Inl (ApiError 400
                          (''File size exceeds maximum limit of '' @
                           numberToString e (real (maxFileSize c) / (1024 * 1024)) @ ''MB'')), w)
                  else if file_mimetype f \<notin> set (allowedFileTypes c)
                  then (Inl (ApiError 400
                          (''File type '' @ file_mimetype f @
                           '' is not supported. Allowed types: '' @
                           join '', '' (allowedFileTypes c))), w)
                  else
                    (case extractTextFromFile e w (file_path f) (file_mimetype f) of
                       Inl err \<Rightarrow> (Inl err, w)
                     | Inr extractedText \<Rightarrow>
                         (case classifyDocument e (JStr (textToClassify extractedText)) w of
                            (Inl err, w') \<Rightarrow> (Inl err, w')
                          | (Inr classification, w') \<Rightarrow>
                              (Inr (buildClassificationResult classification
                                      [(''fileName'', JStr (file_originalname f)),
                                       (''fileSize'', JNum (Fin (real (file_size f)))),
                                       (''mimeType'', JStr (file_mimetype f)),
                                       (''uploadedAt'', JStr (toISOString_now e))]), w'))));
               w2 = (if tempFilePath \<noteq> [] then cleanupTempFile e w1 tempFilePath else w1)
           in (case res of
                 Inl err \<Rightarrow> (Inl (rethrow ''Failed to process document'' err), w2)
               | Inr result \<Rightarrow> (Inr result, w2))))"

definition classifyText :: "env \<Rightarrow> jsval \<Rightarrow> world \<Rightarrow> (js_error + jsobj) \<times> world" where
  "classifyText e textContent w =
     (case (case textContent of
              JStr text \<Rightarrow>
                if text = [] then (Inl (ApiError 400 ''Text content is required''), w)
                else if length (trim text) = 0
                then (Inl (ApiError 400 ''Text content cannot be empty''), w)
                else
                  (case classifyDocument e (JStr (textToClassify text)) w of
                     (Inl err, w') \<Rightarrow> (Inl err, w')
                   | (Inr classification, w') \<Rightarrow>
                       (Inr (buildClassificationResult classification
                               [(''contentLength'', JNum (Fin (real (length text)))),
                                (''classifiedAt'', JStr (toISOString_now e))]), w'))
            | _ \<Rightarrow> (Inl (ApiError 400 ''Text content is required''), w)) of
        (Inl err, w') \<Rightarrow> (Inl (rethrow ''Failed to classify text content'' err), w')
      | (Inr result, w') \<Rightarrow> (Inr result, w'))"

section \<open>Request validation (validateTextContent)\<close>

text \<open>
  \<^verbatim>\<open>validateTextContent\<close> on the request body: the status and message of the response
  it sends, or \<open>None\<close> when it calls \<^verbatim>\<open>next()\<close>.
\<close>

definition validateTextContent :: "jsobj \<Rightarrow> (nat \<times> string) option" where
  "validateTextContent body =
     (let content = getProp body ''content''
      in if \<not> truthy content then Some (400, ''Text content is required in the request body'')
         else (case content of
                 JStr s \<Rightarrow>
                   if length (trim s) = 0 then Some (400, ''Text content cannot be empty'')
                   else None
               | _ \<Rightarrow> Some (400, ''Text content must be a string'')))"

section \<open>A JSON decoder\<close>

text \<open>
  The theorems below hold for every decoder the environment may supply. To run the gateway
  on a concrete reply, this is \<^verbatim>\<open>JSON.parse\<close> on text of code units below 256, restricted
  to texts that denote an object: white space, objects, arrays, strings with their escapes,
  numbers, \<^verbatim>\<open>true\<close>, \<^verbatim>\<open>false\<close> and \<^verbatim>\<open>null\<close>. A \<^verbatim>\<open>\u\<close> escape of a code unit
  above 255 lies outside the character model and is refused. A repeated key keeps its first
  position and its last value. The first argument of \<open>parseValue\<close> bounds the number of
  nested calls; \<open>JSON_parse_object\<close> starts it at twice the length of the text plus two.
\<close>

definition isJsonWhiteSpace :: "char \<Rightarrow> bool" where
  "isJsonWhiteSpace c = ((of_char c :: nat) \<in> {9, 10, 13, 32})"

definition skipWs :: "string \<Rightarrow> string" where
  "skipWs s = dropWhile isJsonWhiteSpace s"

definition expectChar :: "char \<Rightarrow> string \<Rightarrow> string option" where
  "expectChar c s = (case skipWs s of [] \<Rightarrow> None | d # r \<Rightarrow> if d = c then Some r else None)"

definition hexVal :: "char \<Rightarrow> nat option" where
  "hexVal c =
     (let n = (of_char c :: nat)
      in if 48 \<le> n \<and> n \<le> 57 then Some (n - 48)
         else if 65 \<le> n \<and> n \<le> 70 then Some (n - 55)
         else if 97 \<le> n \<and> n \<le> 102 then Some (n - 87)
         else None)"

definition unescape :: "char \<Rightarrow> char option" where
  "unescape d =
     (if d = CHR 0x22 \<or> d = CHR 0x5C \<or> d = CHR ''/'' then Some d
      else if d = CHR ''b'' then Some (CHR 0x08)
      else if d = CHR ''f'' then Some (CHR 0x0C)
      else if d = CHR ''n'' then Some (CHR 0x0A)
      else if d = CHR ''r'' then Some (CHR 0x0D)
      else if d = CHR ''t'' then Some (CHR 0x09)
      else None)"

definition hex4 :: "string \<Rightarrow> nat option" where
  "hex4 hs =
     (case map hexVal hs of
        [Some a, Some b, Some c, Some d] \<Rightarrow> Some (((a * 16 + b) * 16 + c) * 16 + d)
      | _ \<Rightarrow> None)"

fun parseStringBody :: "string \<Rightarrow> (string \<times> string) option" where
  "parseStringBody [] = None"
| "parseStringBody (c # cs) =
     (if c = CHR 0x22 then Some ([], cs)
      else if c = CHR 0x5C then
        (case cs of
           [] \<Rightarrow> None
         | d # ds \<Rightarrow>
             if d = CHR ''u'' then
               (case hex4 (take 4 ds) of
                  None \<Rightarrow> None
                | Some n \<Rightarrow>
                    if n < 256
                    then map_option (\<lambda>(s, r). (char_of n # s, r)) (parseStringBody (drop 4 ds))
                    else None)
             else
               (case unescape d of
                  None \<Rightarrow> None
                | Some x \<Rightarrow> map_option (\<lambda>(s, r). (x # s, r)) (parseStringBody ds)))
      else if (of_char c :: nat) < 32 then None
      else map_option (\<lambda>(s, r). (c # s, r)) (parseStringBody cs))"

definition parseNumber :: "string \<Rightarrow> (real \<times> string) option" where
  "parseNumber s =
     (let (neg, u) = (case s of [] \<Rightarrow> (False, s)
                      | c # r \<Rightarrow> if c = CHR ''-'' then (True, r) else (False, s));
          ip = (case u of [] \<Rightarrow> []
                | c # r \<Rightarrow> if c = CHR ''0'' then [c] else takeWhile isDigit u);
          r1 = drop (length ip) u
      in if ip = [] then None
         else
           (case (case r1 of
                    [] \<Rightarrow> Some ([], r1)
                  | c # r \<Rightarrow>
                      if c = CHR ''.''
                      then (if takeWhile isDigit r = [] then None
                            else Some (takeWhile isDigit r, dropWhile isDigit r))
                      else Some ([], r1)) of
              None \<Rightarrow> None
            | Some (fp, r2) \<Rightarrow>
                (case (case r2 of
                         [] \<Rightarrow> Some (1, r2)
                       | c # r \<Rightarrow>
                           if c = CHR ''e'' \<or> c = CHR ''E'' then
                             (let (eneg, r3) =
                                    (case r of [] \<Rightarrow> (False, r)
                                     | d # r' \<Rightarrow> if d = CHR ''-'' then (True, r')
                                                 else if d = CHR ''+'' then (False, r')
                                                 else (False, r));
                                  es = takeWhile isDigit r3
                              in if es = [] then None
                                 else Some (if eneg then 1 / 10 ^ digitsVal es
                                            else 10 ^ digitsVal es, dropWhile isDigit r3))
                           else Some (1, r2)) of
                   None \<Rightarrow> None
                 | Some (f, r4) \<Rightarrow>
                     (let x = (real (digitsVal ip) + real (digitsVal fp) / 10 ^ length fp) * f
                      in Some (if neg then - x else x, r4)))))"

fun parseValue :: "nat \<Rightarrow> string \<Rightarrow> (jsval \<times> string) option"
  and parseElements :: "nat \<Rightarrow> string \<Rightarrow> (jsval list \<times> string) option"
  and parseMembers :: "nat \<Rightarrow> string \<Rightarrow> (jsobj \<times> string) option" where
  "parseValue 0 s = None"
| "parseValue (Suc n) s =
     (case skipWs s of
        [] \<Rightarrow> None
      | c # cs \<Rightarrow>
          if c = CHR ''{'' then
            (case expectChar (CHR ''}'') cs of
               Some r \<Rightarrow> Some (JObj [], r)
             | None \<Rightarrow>
                 map_option (\<lambda>(kvs, r). (JObj (foldl (\<lambda>obj (k, v). setProp k v obj) [] kvs), r))
                   (parseMembers n cs))
          else if c = CHR ''['' then
            (case expectChar (CHR '']'') cs of
               Some r \<Rightarrow> Some (JArr [], r)
             | None \<Rightarrow> map_option (\<lambda>(vs, r). (JArr vs, r)) (parseElements n cs))
          else if c = CHR 0x22 then map_option (\<lambda>(str, r). (JStr str, r)) (parseStringBody cs)
          else if take 4 (c # cs) = ''true'' then Some (JBool True, drop 4 (c # cs))
          else if take 5 (c # cs) = ''false'' then Some (JBool False, drop 5 (c # cs))
          else if take 4 (c # cs) = ''null'' then Some (JNull, drop 4 (c # cs))
          else map_option (\<lambda>(x, r). (JNum (toDouble x), r)) (parseNumber (c # cs)))"
| "parseElements 0 s = None"
| "parseElements (Suc n) s =
     (case parseValue n s of
        None \<Rightarrow> None
      | Some (v, r) \<Rightarrow>
          (case expectChar (CHR '','') r of
             Some r' \<Rightarrow> map_option (\<lambda>(vs, r''). (v # vs, r'')) (parseElements n r')
           | None \<Rightarrow> map_option (\<lambda>r'. ([v], r')) (expectChar (CHR '']'') r)))"
| "parseMembers 0 s = None"
| "parseMembers (Suc n) s =
     (case expectChar (CHR 0x22) s of
        None \<Rightarrow> None
      | Some cs \<Rightarrow>
          (case parseStringBody cs of
             None \<Rightarrow> None
           | Some (k, r) \<Rightarrow>
               (case expectChar (CHR '':'') r of
                  None \<Rightarrow> None
                | Some r1 \<Rightarrow>
                    (case parseValue n r1 of
                       None \<Rightarrow> None
                     | Some (v, r2) \<Rightarrow>
                         (case expectChar (CHR '','') r2 of
                            Some r3 \<Rightarrow>
                              map_option (\<lambda>(kvs, r4). ((k, v) # kvs, r4)) (parseMembers n r3)
                          | None \<Rightarrow>
                              map_option (\<lambda>r3. ([(k, v)], r3)) (expectChar (CHR ''}'') r2))))))"

definition JSON_parse_object :: "string \<Rightarrow> jsobj option" where
  "JSON_parse_object s =
     (case parseValue (2 * length s + 2) s of
        Some (JObj kvs, r) \<Rightarrow> if skipWs r = [] then Some kvs else None
      | _ \<Rightarrow> None)"

section \<open>Notions the properties are stated with\<close>

text \<open>
  The definitions of this section are not code of the repository. The first three say, in the
  words of the specification, what a sanitized field is; the theorems compare the code with
  them.
\<close>

text \<open>
  A confidence as the specification wants it: the parsed number when it is a real number of
  the closed interval from 0 to 1, and 0.5 when parsing failed or the number lies outside.
\<close>

definition spec_confidence :: "jsnum \<Rightarrow> jsnum" where
  "spec_confidence n =
     (case n of Fin x \<Rightarrow> if 0 \<le> x \<and> x \<le> 1 then Fin x else Fin (1 / 2) | _ \<Rightarrow> Fin (1 / 2))"

text \<open>Case-insensitive comparison of two strings.\<close>

definition equalIgnoringCase :: "string \<Rightarrow> string \<Rightarrow> bool" where
  "equalIgnoringCase a b = (toLowerCase a = toLowerCase b)"

text \<open>
  An enum field as the specification wants it: the lower-cased string when that is a member
  of the fixed set, the default for every other value.
\<close>

definition sanitizedEnum :: "string list \<Rightarrow> string \<Rightarrow> jsval \<Rightarrow> string" where
  "sanitizedEnum valid dflt v =
     (case v of
        JStr s \<Rightarrow> if s = [] \<or> toLowerCase s \<notin> set valid then dflt else toLowerCase s
      | _ \<Rightarrow> dflt)"

text \<open>
  The values on which \<^verbatim>\<open>!v || !valid.includes(v.toLowerCase())\<close> does not throw: the
  falsy ones, which never reach the call, and the strings.
\<close>

definition lowerCaseable :: "jsval \<Rightarrow> bool" where
  "lowerCaseable v = (\<not> truthy v \<or> isString v)"

text \<open>
  The candidates the sanitizer returns on (lemma \<open>sanitize_returns_iff\<close> below): those whose
  \<^verbatim>\<open>documentType\<close> and \<^verbatim>\<open>department\<close> are each absent, falsy or a string, and whose two
  confidences can be converted to a string.
\<close>

definition sanitizable :: "jsobj \<Rightarrow> bool" where
  "sanitizable r =
     (lowerCaseable (getProp r ''documentType'') \<and> lowerCaseable (getProp r ''department'') \<and>
      \<not> toStringThrows (getProp r ''confidence'') \<and>
      \<not> toStringThrows (getProp r ''routingConfidence''))"

text \<open>
  The object \<^verbatim>\<open>validateClassificationResult\<close> returns when it returns, as one expression
  of its argument (lemma \<open>validateClassificationResult_eq\<close> below).
\<close>

definition sanitized :: "jsobj \<Rightarrow> jsobj" where
  "sanitized r =
     setProp ''suggestedActions''
       (if isArray (getProp r ''suggestedActions'') then getProp r ''suggestedActions'' else JArr [])
    (setProp ''reasoning'' (js_or (getProp r ''reasoning'') (JStr ''Classification completed''))
    (setProp ''extractedData'' (js_or (getProp r ''extractedData'') (JObj []))
    (setProp ''routingConfidence''
       (JNum (spec_confidence (parseFloat_val (getProp r ''routingConfidence''))))
    (setProp ''confidence'' (JNum (spec_confidence (parseFloat_val (getProp r ''confidence''))))
    (setProp ''department''
       (JStr (sanitizedEnum validDepartments ''general'' (getProp r ''department'')))
    (setProp ''documentType''
       (JStr (sanitizedEnum validDocumentTypes ''other'' (getProp r ''documentType''))) r))))))"

text \<open>
  The first balanced object substring of a reply, as the specification describes the
  gateway's search: from the first opening brace to the closing brace that brings the
  nesting depth back to zero.
\<close>

fun balancedPrefix :: "nat \<Rightarrow> string \<Rightarrow> string option" where
  "balancedPrefix d [] = None"
| "balancedPrefix d (c # cs) =
     (if c = CHR ''{'' then map_option (\<lambda>b. c # b) (balancedPrefix (Suc d) cs)
      else if c = CHR ''}'' then
        (if d \<le> 1 then Some [c] else map_option (\<lambda>b. c # b) (balancedPrefix (d - 1) cs))
      else map_option (\<lambda>b. c # b) (balancedPrefix d cs))"

definition firstBalancedObject :: "string \<Rightarrow> string option" where
  "firstBalancedObject text = balancedPrefix 0 (dropWhile (\<lambda>c. c \<noteq> CHR ''{'') text)"

section \<open>A concrete environment\<close>

text \<open>
  An environment to run the services in: the model answers every prompt with the given
  outcome, replies are decoded by \<open>JSON_parse_object\<close>, no file is a PDF, every file can
  be unlinked, and the one number the default configuration has to render is 10. One text
  file has been uploaded.
\<close>

definition exampleEnv :: "string + string \<Rightarrow> env" where
  "exampleEnv reply =
     \<lparr>generateContent = (\<lambda>prompt. reply),
      JSON_parse = JSON_parse_object,
      pdfParse = (\<lambda>dataBuffer. Inl ''Invalid PDF structure''),
      numberToString = (\<lambda>x. ''10''),
      toISOString_now = ''2026-01-01T00:00:00.000Z'',
      unlinkFails = (\<lambda>filePath. False)\<rparr>"

definition exampleFile :: upload where
  "exampleFile =
     \<lparr>file_path = ''public/temp/invoice-1.txt'', file_size = 26,
      file_mimetype = ''text/plain'', file_originalname = ''invoice.txt''\<rparr>"

definition exampleWorld :: world where
  "exampleWorld =
     \<lparr>files = (\<lambda>p. if p = ''public/temp/invoice-1.txt''
                    then Some ''Invoice #123, Amount: $500'' else None),
      prompts = [], unlinked = []\<rparr>"

section \<open>Properties of the rounding\<close>

text \<open>The doubles of some decimals, and two integers past \<open>2 ^ 53\<close> that round to even.\<close>

lemma toDouble_examples:
  "toDouble (1 / 10) = Fin (3602879701896397 / 36028797018963968)"
  "toDouble (3 / 10) = Fin (5404319552844595 / 18014398509481984)"
  "toDouble (1 / 2) = Fin (1 / 2)"
  "toDouble (- 5 / 2) = Fin (- 5 / 2)"
  "toDouble 9007199254740993 = Fin 9007199254740992"
  "toDouble 9007199254740995 = Fin 9007199254740996"
  by code_simp+

lemma normUp_small:
  "0 < a \<Longrightarrow> a * 2 ^ n \<le> 1 \<Longrightarrow> normUp n a e = e - int n"
proof (induction n arbitrary: a e)
  case 0
  then show ?case by simp
next
  case (Suc n)
  have s: "a * 2 ^ Suc n \<le> 1" using Suc.prems by simp
  have p: "(1::real) \<le> 2 ^ n" by (rule one_le_power) simp
  have a1: "a < 1"
  proof -
    have "a * 1 \<le> a * 2 ^ n" using Suc.prems(1) p by (intro mult_left_mono) simp_all
    then have "a * 2 \<le> a * 2 ^ n * 2" by simp
    then have "a * 2 \<le> 1" using s by (simp add: mult.commute mult.left_commute)
    then show ?thesis using Suc.prems(1) by linarith
  qed
  have "a * 2 * 2 ^ n \<le> 1" using Suc.prems(2) by (simp add: mult.assoc)
  then have "normUp n (a * 2) (e - 1) = (e - 1) - int n"
    using Suc.IH [of "a * 2" "e - 1"] Suc.prems(1) by simp
  then show ?case using a1 by simp
qed

text \<open>Below half the least subnormal a number rounds to zero.\<close>

lemma toDouble_underflow:
  assumes "\<bar>x\<bar> < 1 / 2 ^ 1075"
  shows "toDouble x = Fin 0"
proof (cases "x = 0")
  case True
  then show ?thesis by (simp add: toDouble_def)
next
  case False
  let ?a = "\<bar>x\<bar>"
  have pos: "0 < ?a" using False by simp
  have lt: "?a * 2 ^ 1075 < 1" using assms by (simp add: field_simps)
  have le: "?a * 2 ^ 1022 \<le> 1"
  proof -
    have "(2::real) ^ 1022 \<le> 2 ^ 1075" by (rule power_increasing) simp_all
    then have "?a * 2 ^ 1022 \<le> ?a * 2 ^ 1075" using pos by (simp add: mult_left_mono)
    then show ?thesis using lt by linarith
  qed
  have lt1: "?a < 1"
  proof -
    have "(1::real) \<le> 2 ^ 1075" by (rule one_le_power) simp
    then have "?a * 1 \<le> ?a * 2 ^ 1075" using pos by (intro mult_left_mono) simp_all
    then show ?thesis using lt by linarith
  qed
  have e: "binaryExponent ?a = - 1022"
    using normUp_small [OF pos le, of 0] lt1 by (simp add: binaryExponent_def)
  have u: "pow2 (- 1022 - 52) = 1 / 2 ^ 1074" by (simp add: pow2_def)
  have q: "?a / (1 / 2 ^ 1074) < 1 / 2"
  proof -
    have "(2::real) ^ 1075 = 2 * 2 ^ 1074" by (simp add: power_Suc [symmetric] del: power_Suc)
    then show ?thesis using lt by simp
  qed
  have q0: "0 \<le> ?a / (1 / 2 ^ 1074)" by simp
  have fl: "\<lfloor>?a / (1 / 2 ^ 1074)\<rfloor> = 0" using q q0 by (simp add: floor_eq_iff)
  have m: "roundHalfEven (?a / (1 / 2 ^ 1074)) = 0"
    using q fl by (simp add: roundHalfEven_def Let_def)
  show ?thesis unfolding toDouble_def Let_def e u m using False by simp
qed

text \<open>
  \<^verbatim>\<open>parseFloat('-1e-400')\<close> is the negative zero, which is the zero here.
\<close>

lemma parseFloat_underflow: "parseFloat_str ''-1e-400'' = Fin 0"
proof -
  have p: "parseUnsignedDecimal ''1e-400'' = Some (1 / 10 ^ 400)"
    by code_simp
  have "(1::real) / 10 ^ 400 < 1 / 2 ^ 1075" by simp
  then have "toDouble (- (1 / 10 ^ 400)) = Fin 0" by (intro toDouble_underflow) simp
  moreover have "trimStart ''-1e-400'' = ''-1e-400''" by code_simp
  ultimately show ?thesis using p by (simp add: parseFloat_str_def)
qed

section \<open>Properties of the sanitizer\<close>

lemma getProp_setProp: "getProp (setProp k v obj) k' = (if k' = k then v else getProp obj k')"
  by (simp add: getProp_def setProp_def update_conv')

text \<open>\<^verbatim>\<open>validateConfidence\<close> throws where \<^verbatim>\<open>parseFloat\<close> does, and clamps otherwise.\<close>

lemma validateConfidence_eq:
  "validateConfidence v =
     (if toStringThrows v then Inl (TypeError ''Cannot convert object to primitive value'')
      else Inr (spec_confidence (parseFloat_val v)))"
  by (cases "parseFloat_val v")
     (auto simp: validateConfidence_def parseFloat_def spec_confidence_def isNaN_def js_gt_def)

lemma enum_step:
  "(if \<not> truthy v then Inr (setProp f (JStr dflt) r)
    else (case call_toLowerCase f v of
            Inl e \<Rightarrow> Inl e
          | Inr l \<Rightarrow> if l \<notin> set valid then Inr (setProp f (JStr dflt) r)
                     else Inr (setProp f (JStr l) r))) =
   (if lowerCaseable v then Inr (setProp f (JStr (sanitizedEnum valid dflt v)) r)
    else Inl (TypeError (''result.'' @ f @ ''.toLowerCase is not a function'')))"
  by (cases v) (auto simp: lowerCaseable_def sanitizedEnum_def toLowerCase_def)

text \<open>
  The sanitizer in closed form: it throws exactly when \<^verbatim>\<open>documentType\<close> or
  \<^verbatim>\<open>department\<close> is a truthy value that is not a string, or the string conversion of a
  confidence throws; on every other candidate it returns \<open>sanitized\<close>.
\<close>

lemma validateClassificationResult_eq:
  "validateClassificationResult r =
     (if \<not> lowerCaseable (getProp r ''documentType'')
      then Inl (TypeError ''result.documentType.toLowerCase is not a function'')
      else if \<not> lowerCaseable (getProp r ''department'')
      then Inl (TypeError ''result.department.toLowerCase is not a function'')
      else if toStringThrows (getProp r ''confidence'') \<or>
              toStringThrows (getProp r ''routingConfidence'')
      then Inl (TypeError ''Cannot convert object to primitive value'')
      else Inr (sanitized r))"
  unfolding validateClassificationResult_def Let_def enum_step validateConfidence_eq sanitized_def
  by (simp add: getProp_setProp documentTypes_OTHER_def departments_GENERAL_def)

lemma sanitize_returns_iff:
  "validateClassificationResult r = Inr r' \<longleftrightarrow> sanitizable r \<and> r' = sanitized r"
  by (auto simp: validateClassificationResult_eq sanitizable_def)

lemma sanitize_Inr: "validateClassificationResult r = Inr r' \<Longrightarrow> r' = sanitized r"
  by (simp add: sanitize_returns_iff)

lemma sanitizable_Inr: "sanitizable r \<Longrightarrow> validateClassificationResult r = Inr (sanitized r)"
  by (simp add: sanitize_returns_iff)

lemma sanitize_Inl: "validateClassificationResult r = Inl err \<Longrightarrow> \<exists>msg. err = TypeError msg"
  by (auto simp: validateClassificationResult_eq split: if_splits)

lemma sanitized_documentType:
  "getProp (sanitized r) ''documentType'' =
     JStr (sanitizedEnum validDocumentTypes ''other'' (getProp r ''documentType''))"
  by (simp add: sanitized_def getProp_setProp)

lemma sanitized_department:
  "getProp (sanitized r) ''department'' =
     JStr (sanitizedEnum validDepartments ''general'' (getProp r ''department''))"
  by (simp add: sanitized_def getProp_setProp)

lemma sanitized_confidence:
  "getProp (sanitized r) ''confidence'' =
     JNum (spec_confidence (parseFloat_val (getProp r ''confidence'')))"
  by (simp add: sanitized_def getProp_setProp)

lemma sanitized_routingConfidence:
  "getProp (sanitized r) ''routingConfidence'' =
     JNum (spec_confidence (parseFloat_val (getProp r ''routingConfidence'')))"
  by (simp add: sanitized_def getProp_setProp)

lemma sanitized_suggestedActions:
  "getProp (sanitized r) ''suggestedActions'' =
     (if isArray (getProp r ''suggestedActions'') then getProp r ''suggestedActions'' else JArr [])"
  by (simp add: sanitized_def getProp_setProp)

lemma toLowerCase_validDocumentTypes: "m \<in> set validDocumentTypes \<Longrightarrow> toLowerCase m = m"
  unfolding validDocumentTypes_def by (auto; code_simp)

lemma toLowerCase_validDepartments: "m \<in> set validDepartments \<Longrightarrow> toLowerCase m = m"
  unfolding validDepartments_def by (auto; code_simp)

lemma member_ignoring_case:
  assumes "\<And>m. m \<in> set valid \<Longrightarrow> toLowerCase m = m"
  shows "toLowerCase s \<in> set valid \<longleftrightarrow> (\<exists>m \<in> set valid. equalIgnoringCase s m)"
  using assms unfolding equalIgnoringCase_def by metis

lemma spec_confidence_Fin:
  "(case spec_confidence n of Fin x \<Rightarrow> 0 \<le> x \<and> x \<le> 1 | _ \<Rightarrow> False)"
  by (cases n) (simp_all add: spec_confidence_def)

lemma spec_confidence_range: "\<exists>x. spec_confidence n = Fin x \<and> 0 \<le> x \<and> x \<le> 1"
  using spec_confidence_Fin [of n] by (cases "spec_confidence n") simp_all

lemma sanitizedEnum_member: "dflt \<in> set valid \<Longrightarrow> sanitizedEnum valid dflt v \<in> set valid"
  by (cases v) (auto simp: sanitizedEnum_def)

text \<open>
  What the sanitizer returns is what \<^verbatim>\<open>buildClassificationResult\<close> expects: a document
  type and a department of the fixed sets and two confidences that are numbers between 0
  and 1.
\<close>

lemma sanitize_establishes_schema:
  assumes "validateClassificationResult r = Inr r'"
  shows "\<exists>d p x y. getProp r' ''documentType'' = JStr d \<and> d \<in> set validDocumentTypes \<and>
           getProp r' ''department'' = JStr p \<and> p \<in> set validDepartments \<and>
           getProp r' ''confidence'' = JNum (Fin x) \<and> 0 \<le> x \<and> x \<le> 1 \<and>
           getProp r' ''routingConfidence'' = JNum (Fin y) \<and> 0 \<le> y \<and> y \<le> 1"
proof -
  have r': "r' = sanitized r" using assms by (rule sanitize_Inr)
  have d: "sanitizedEnum validDocumentTypes ''other'' (getProp r ''documentType'')
             \<in> set validDocumentTypes"
    by (rule sanitizedEnum_member) (simp add: validDocumentTypes_def)
  have p: "sanitizedEnum validDepartments ''general'' (getProp r ''department'')
             \<in> set validDepartments"
    by (rule sanitizedEnum_member) (simp add: validDepartments_def)
  obtain x where x: "spec_confidence (parseFloat_val (getProp r ''confidence'')) = Fin x"
      "0 \<le> x" "x \<le> 1"
    using spec_confidence_range by blast
  obtain y where y: "spec_confidence (parseFloat_val (getProp r ''routingConfidence'')) = Fin y"
      "0 \<le> y" "y \<le> 1"
    using spec_confidence_range by blast
  show ?thesis
    unfolding r' sanitized_documentType sanitized_department sanitized_confidence
      sanitized_routingConfidence
    using d p x y by simp
qed

text \<open>
  \<^verbatim>\<open>parseFloat\<close> rounds what it reads to a double: a confidence written with more digits
  than a double holds is kept when its double lies between 0 and 1, though the decimal
  itself lies outside, and so is a negative decimal that rounds to zero.
\<close>

lemma validateConfidence_rounds:
  "validateConfidence (JStr ''1.00000000000000001'') = Inr (Fin 1)"
  "validateConfidence (JStr ''1.0000000000000003'') = Inr (Fin (1 / 2))"
  by code_simp+

lemma validateConfidence_underflow: "validateConfidence (JStr ''-1e-400'') = Inr (Fin 0)"
  by (simp add: validateConfidence_eq parseFloat_underflow spec_confidence_def)

text \<open>
  The confidences on the sanitizer's domain: each of \<^verbatim>\<open>confidence\<close> and
  \<^verbatim>\<open>routingConfidence\<close> comes out as the number \<^verbatim>\<open>parseFloat\<close> reads from the candidate's
  value when that is a number between 0 and 1, and as 0.5 when nothing parses or the number
  lies outside.
\<close>

lemma sanitizer_confidence:
  assumes "sanitizable r" and "f = ''confidence'' \<or> f = ''routingConfidence''"
  shows "\<exists>r'. validateClassificationResult r = Inr r' \<and>
           getProp r' f =
             (case parseFloat_val (getProp r f) of
                Fin x \<Rightarrow> if 0 \<le> x \<and> x \<le> 1 then JNum (Fin x) else JNum (Fin (5 / 10))
              | _ \<Rightarrow> JNum (Fin (5 / 10)))"
proof -
  have "getProp (sanitized r) f =
          (case parseFloat_val (getProp r f) of
             Fin x \<Rightarrow> if 0 \<le> x \<and> x \<le> 1 then JNum (Fin x) else JNum (Fin (5 / 10))
           | _ \<Rightarrow> JNum (Fin (5 / 10)))"
    using assms(2)
    by (auto simp: sanitized_confidence sanitized_routingConfidence spec_confidence_def
             split: jsnum.splits)
  then show ?thesis using sanitizable_Inr [OF assms(1)] by simp
qed

lemma sanitizer_confidence_example:
  "let candidate = [(''confidence'', JStr ''0.7abc''), (''routingConfidence'', JNum (Fin (3 / 2)))];
       result = [(''confidence'', JNum (toDouble (7 / 10))),
                 (''routingConfidence'', JNum (Fin (1 / 2))),
                 (''documentType'', JStr ''other''), (''department'', JStr ''general''),
                 (''extractedData'', JObj []), (''reasoning'', JStr ''Classification completed''),
                 (''suggestedActions'', JArr [])]
   in sanitizable candidate
    \<and> validateClassificationResult candidate = Inr result
    \<and> parseFloat_val (getProp candidate ''confidence'') = toDouble (7 / 10)
    \<and> getProp result ''confidence'' = JNum (toDouble (7 / 10))
    \<and> parseFloat_val (getProp candidate ''routingConfidence'') = Fin (3 / 2)
    \<and> getProp result ''routingConfidence'' = JNum (Fin (5 / 10))"
proof -
  let ?c = "[(''confidence'', JStr ''0.7abc''), (''routingConfidence'', JNum (Fin (3 / 2)))]"
  let ?r = "[(''confidence'', JNum (toDouble (7 / 10))), (''routingConfidence'', JNum (Fin (1 / 2))),
             (''documentType'', JStr ''other''), (''department'', JStr ''general''),
             (''extractedData'', JObj []), (''reasoning'', JStr ''Classification completed''),
             (''suggestedActions'', JArr [])]"
  have s: "sanitizable ?c"
    by (simp add: sanitizable_def lowerCaseable_def getProp_def)
  have h: "validateClassificationResult ?c = Inr ?r"
    by code_simp
  have p1: "parseFloat_val (getProp ?c ''confidence'') = toDouble (7 / 10)"
    by code_simp
  have v: "toDouble (7 / 10) = Fin (3152519739159347 / 4503599627370496)"
    by code_simp
  have p2: "parseFloat_val (getProp ?c ''routingConfidence'') = Fin (3 / 2)"
    by (simp add: getProp_def)
  show ?thesis
    using s h p1 p2
      sanitizer_confidence [OF s, of "''confidence''"]
      sanitizer_confidence [OF s, of "''routingConfidence''"]
    unfolding Let_def v by simp
qed

text \<open>
  The two enumerations on the sanitizer's domain: a \<^verbatim>\<open>documentType\<close> string comes out
  lower-cased when it equals, ignoring case, one of the seven document types, and as
  \<^verbatim>\<open>other\<close> when it equals none; a \<^verbatim>\<open>department\<close> string likewise, with the five departments
  and \<^verbatim>\<open>general\<close>.
\<close>

lemma sanitizer_enums:
  assumes "sanitizable r"
  shows "\<exists>r'. validateClassificationResult r = Inr r'
       \<and> (\<forall>s. getProp r ''documentType'' = JStr s \<longrightarrow>
            getProp r' ''documentType'' =
              JStr (if \<exists>m \<in> {''invoice'', ''purchase_order'', ''contract'', ''receipt'',
                               ''proposal'', ''agreement'', ''other''}. equalIgnoringCase s m
                    then toLowerCase s else ''other''))
       \<and> (\<forall>s. getProp r ''department'' = JStr s \<longrightarrow>
            getProp r' ''department'' =
              JStr (if \<exists>m \<in> {''finance'', ''procurement'', ''legal'', ''operations'',
                               ''general''}. equalIgnoringCase s m
                    then toLowerCase s else ''general''))"
proof -
  have r: "validateClassificationResult r = Inr (sanitized r)"
    using assms by (rule sanitizable_Inr)
  have dt: "set validDocumentTypes =
              {''invoice'', ''purchase_order'', ''contract'', ''receipt'', ''proposal'',
               ''agreement'', ''other''}"
    by (simp add: validDocumentTypes_def)
  have dp: "set validDepartments =
              {''finance'', ''procurement'', ''legal'', ''operations'', ''general''}"
    by (simp add: validDepartments_def)
  have e1: "toLowerCase [] \<notin> set validDocumentTypes"
    by (simp add: toLowerCase_def validDocumentTypes_def)
  have e2: "toLowerCase [] \<notin> set validDepartments"
    by (simp add: toLowerCase_def validDepartments_def)
  have m1: "\<And>s. toLowerCase s \<in> set validDocumentTypes \<longleftrightarrow>
                 (\<exists>m \<in> set validDocumentTypes. equalIgnoringCase s m)"
    by (rule member_ignoring_case) (rule toLowerCase_validDocumentTypes)
  have m2: "\<And>s. toLowerCase s \<in> set validDepartments \<longleftrightarrow>
                 (\<exists>m \<in> set validDepartments. equalIgnoringCase s m)"
    by (rule member_ignoring_case) (rule toLowerCase_validDepartments)
  have a: "\<And>s. sanitizedEnum validDocumentTypes ''other'' (JStr s) =
             (if \<exists>m \<in> set validDocumentTypes. equalIgnoringCase s m
              then toLowerCase s else ''other'')"
    using e1 m1 by (auto simp: sanitizedEnum_def)
  have b: "\<And>s. sanitizedEnum validDepartments ''general'' (JStr s) =
             (if \<exists>m \<in> set validDepartments. equalIgnoringCase s m
              then toLowerCase s else ''general'')"
    using e2 m2 by (auto simp: sanitizedEnum_def)
  have "(\<forall>s. getProp r ''documentType'' = JStr s \<longrightarrow>
            getProp (sanitized r) ''documentType'' =
              JStr (if \<exists>m \<in> {''invoice'', ''purchase_order'', ''contract'', ''receipt'',
                               ''proposal'', ''agreement'', ''other''}. equalIgnoringCase s m
                    then toLowerCase s else ''other''))
       \<and> (\<forall>s. getProp r ''department'' = JStr s \<longrightarrow>
            getProp (sanitized r) ''department'' =
              JStr (if \<exists>m \<in> {''finance'', ''procurement'', ''legal'', ''operations'',
                               ''general''}. equalIgnoringCase s m
                    then toLowerCase s else ''general''))"
    unfolding sanitized_documentType sanitized_department
    using a b unfolding dt dp by simp
  then show ?thesis using r by blast
qed

lemma sanitizer_enums_example:
  "let candidate = [(''documentType'', JStr ''Purchase_Order''),
                    (''department'', JStr ''Marketing'')];
       result = [(''documentType'', JStr ''purchase_order''), (''department'', JStr ''general''),
                 (''confidence'', JNum (Fin (1 / 2))), (''routingConfidence'', JNum (Fin (1 / 2))),
                 (''extractedData'', JObj []), (''reasoning'', JStr ''Classification completed''),
                 (''suggestedActions'', JArr [])]
   in sanitizable candidate
    \<and> validateClassificationResult candidate = Inr result
    \<and> getProp candidate ''documentType'' = JStr ''Purchase_Order''
    \<and> equalIgnoringCase ''Purchase_Order'' ''purchase_order''
    \<and> getProp result ''documentType'' = JStr ''purchase_order''
    \<and> getProp candidate ''department'' = JStr ''Marketing''
    \<and> getProp result ''department'' = JStr ''general''"
proof -
  let ?c = "[(''documentType'', JStr ''Purchase_Order''), (''department'', JStr ''Marketing'')]"
  let ?r = "[(''documentType'', JStr ''purchase_order''), (''department'', JStr ''general''),
             (''confidence'', JNum (Fin (1 / 2))), (''routingConfidence'', JNum (Fin (1 / 2))),
             (''extractedData'', JObj []), (''reasoning'', JStr ''Classification completed''),
             (''suggestedActions'', JArr [])]"
  have h: "validateClassificationResult ?c = Inr ?r"
    by code_simp
  have g1: "getProp ?c ''documentType'' = JStr ''Purchase_Order''" by (simp add: getProp_def)
  have g2: "getProp ?c ''department'' = JStr ''Marketing''" by (simp add: getProp_def)
  have l1: "toLowerCase ''Purchase_Order'' = ''purchase_order''" by code_simp
  have c1: "equalIgnoringCase ''Purchase_Order'' ''purchase_order''" by code_simp
  have c2: "\<not> (\<exists>m \<in> {''finance'', ''procurement'', ''legal'', ''operations'', ''general''}.
                 equalIgnoringCase ''Marketing'' m)"
    by code_simp
  have s: "sanitizable ?c"
    by (simp add: sanitizable_def lowerCaseable_def getProp_def)
  show ?thesis
    using s h sanitizer_enums [OF s] g1 g2 l1 c1 c2 unfolding Let_def by simp
qed

section \<open>Properties of the gateway\<close>

lemma rethrow_ApiError: "rethrow m (ApiError s msg) = ApiError s msg"
  by (simp add: rethrow_def)

lemma rethrow_Error: "rethrow m (Error msg) = ApiError 500 m"
  by (simp add: rethrow_def)

lemma rethrow_TypeError: "rethrow m (TypeError msg) = ApiError 500 m"
  by (simp add: rethrow_def)

lemma sanitize_fallback: "validateClassificationResult fallbackClassification = Inr fallbackClassification"
  by code_simp

lemma parseReply_fallback:
  assumes "jsonMatch text = None \<or> (\<exists>m. jsonMatch text = Some m \<and> JSON_parse e m = None)"
  shows "parseReply e text = fallbackClassification"
  using assms by (auto simp: parseReply_def)

lemma classifyDocument_rejects:
  assumes "\<not> isString v \<or> v = JStr []"
  shows "classifyDocument e v w =
           (Inl (ApiError 400 ''Document content is required and must be a string''), w)"
  using assms by (cases v) (simp_all add: classifyDocument_def)

lemma classifyDocument_call_fails:
  assumes "content \<noteq> []" and "generateContent e (classificationPrompt @ content) = Inl msg"
  shows "classifyDocument e (JStr content) w =
           (Inl (ApiError 500 ''Failed to classify document with AI model''),
            w\<lparr>prompts := prompts w @ [classificationPrompt @ content]\<rparr>)"
  using assms by (simp add: classifyDocument_def Let_def rethrow_Error)

text \<open>What \<^verbatim>\<open>classifyDocument\<close> returns when the model has replied.\<close>

lemma classifyDocument_reply:
  assumes "content \<noteq> []" and "generateContent e (classificationPrompt @ content) = Inr text"
  shows "fst (classifyDocument e (JStr content) w) =
           (case validateClassificationResult (parseReply e text) of
              Inl err \<Rightarrow> Inl (ApiError 500 ''Failed to classify document with AI model'')
            | Inr r \<Rightarrow> Inr r)"
proof (cases "validateClassificationResult (parseReply e text)")
  case (Inl err)
  then have "rethrow ''Failed to classify document with AI model'' err =
               ApiError 500 ''Failed to classify document with AI model''"
    using sanitize_Inl [OF Inl] by (auto simp: rethrow_TypeError)
  then show ?thesis using assms Inl by (simp add: classifyDocument_def Let_def)
next
  case (Inr r)
  then show ?thesis using assms by (simp add: classifyDocument_def Let_def)
qed

text \<open>A call with a non-empty text sends the model one prompt: the template and the text.\<close>

lemma classifyDocument_prompts:
  assumes "content \<noteq> []"
  shows "snd (classifyDocument e (JStr content) w) =
           w\<lparr>prompts := prompts w @ [classificationPrompt @ content]\<rparr>"
  using assms by (simp add: classifyDocument_def Let_def split: sum.splits)

lemma classifyDocument_error_is_ApiError:
  "fst (classifyDocument e v w) = Inl err \<Longrightarrow> instanceofApiError err"
  by (cases v) (auto simp: classifyDocument_def Let_def rethrow_def split: sum.splits if_splits)


section \<open>Properties of the search for the reply's object\<close>

lemma balancedPrefix_Some:
  "balancedPrefix d s = Some b \<Longrightarrow> \<exists>post. s = b @ post \<and> b \<noteq> [] \<and> last b = CHR ''}''"
proof (induction s arbitrary: d b)
  case Nil
  then show ?case by simp
next
  case (Cons c cs)
  then show ?case by (fastforce split: if_splits)
qed

lemma jsonMatch_Some:
  assumes "jsonMatch text = Some m"
  shows "\<exists>pre post. text = pre @ m @ post \<and> CHR ''{'' \<notin> set pre \<and> CHR ''}'' \<notin> set post
           \<and> dropWhile (\<lambda>c. c \<noteq> CHR ''{'') text = m @ post"
    and "m \<noteq> []" and "hd m = CHR ''{''" and "last m = CHR ''}''"
proof -
  let ?P = "\<lambda>c. c \<noteq> CHR ''{''" and ?Q = "\<lambda>c. c \<noteq> CHR ''}''"
  let ?from = "dropWhile ?P text"
  have m: "m = rev (dropWhile ?Q (rev ?from))" and ne: "m \<noteq> []"
    using assms by (auto simp: jsonMatch_def Let_def split: if_splits)
  show "m \<noteq> []" by (rule ne)
  have "rev (dropWhile ?Q (rev ?from)) @ rev (takeWhile ?Q (rev ?from)) =
          rev (takeWhile ?Q (rev ?from) @ dropWhile ?Q (rev ?from))"
    by (simp only: rev_append)
  also have "\<dots> = ?from"
    by (simp only: takeWhile_dropWhile_id rev_rev_ident)
  finally have fr: "?from = m @ rev (takeWhile ?Q (rev ?from))"
    unfolding m by (rule sym)
  have post: "CHR ''}'' \<notin> set (rev (takeWhile ?Q (rev ?from)))"
    by (auto dest: set_takeWhileD)
  have pre: "CHR ''{'' \<notin> set (takeWhile ?P text)"
    by (auto dest: set_takeWhileD)
  have "text = takeWhile ?P text @ ?from" by simp
  then have "text = takeWhile ?P text @ m @ rev (takeWhile ?Q (rev ?from))"
    using fr by simp
  then show "\<exists>pre post. text = pre @ m @ post \<and> CHR ''{'' \<notin> set pre \<and> CHR ''}'' \<notin> set post
           \<and> dropWhile (\<lambda>c. c \<noteq> CHR ''{'') text = m @ post"
    using pre post fr by blast
  have "?from \<noteq> []" by (metis fr ne append_is_Nil_conv)
  then have "hd ?from = CHR ''{''" using hd_dropWhile [of "?P" "text"] by simp
  then show "hd m = CHR ''{''" using fr ne by (metis hd_append2)
  have d: "dropWhile ?Q (rev ?from) \<noteq> []" using m ne by auto
  then have "hd (dropWhile ?Q (rev ?from)) = CHR ''}''"
    using hd_dropWhile [of "?Q" "rev ?from"] by simp
  then show "last m = CHR ''}''" unfolding m using d by (simp add: last_rev)
qed

lemma jsonMatch_balanced:
  assumes "jsonMatch text = Some m" and "firstBalancedObject text = Some b"
  shows "\<exists>rest. m = b @ rest \<and>
           (rest = [] \<longleftrightarrow>
            CHR ''}'' \<notin> set (drop (length b) (dropWhile (\<lambda>c. c \<noteq> CHR ''{'') text)))"
proof -
  let ?P = "\<lambda>c. c \<noteq> CHR ''{''" and ?Q = "\<lambda>c. c \<noteq> CHR ''}''"
  let ?from = "dropWhile ?P text"
  obtain post where fr: "?from = b @ post" and bne: "b \<noteq> []" and lb: "last b = CHR ''}''"
    using assms(2) balancedPrefix_Some unfolding firstBalancedObject_def by blast
  have m: "m = rev (dropWhile ?Q (rev ?from))"
    using assms(1) by (auto simp: jsonMatch_def Let_def split: if_splits)
  have hb: "dropWhile ?Q (rev b) = rev b"
    using bne lb by (cases "rev b") (auto simp: last_rev hd_rev)
  have dp: "drop (length b) ?from = post" using fr by simp
  show ?thesis
  proof (cases "CHR ''}'' \<in> set post")
    case True
    then have "CHR ''}'' \<in> set (rev post)" by simp
    then have "dropWhile ?Q (rev post @ rev b) = dropWhile ?Q (rev post) @ rev b"
      by (rule dropWhile_append1) simp
    then have "m = b @ rev (dropWhile ?Q (rev post))" unfolding m fr by simp
    moreover have "rev (dropWhile ?Q (rev post)) \<noteq> []"
      using True by (auto simp: dropWhile_eq_Nil_conv)
    ultimately show ?thesis using True dp by auto
  next
    case False
    then have "\<And>x. x \<in> set (rev post) \<Longrightarrow> ?Q x" by auto
    then have "dropWhile ?Q (rev post @ rev b) = dropWhile ?Q (rev b)"
      by (rule dropWhile_append2)
    then have "m = b" unfolding m fr using hb by simp
    then show ?thesis using False dp by auto
  qed
qed


lemma firstBalancedObject_Some:
  assumes "firstBalancedObject text = Some b"
  shows "b \<noteq> []" and "hd b = CHR ''{''"
proof -
  let ?P = "\<lambda>c. c \<noteq> CHR ''{''"
  obtain post where fr: "dropWhile ?P text = b @ post" and bne: "b \<noteq> []"
    using assms balancedPrefix_Some unfolding firstBalancedObject_def by blast
  show "b \<noteq> []" by (rule bne)
  have "dropWhile ?P text \<noteq> []" using fr bne by simp
  then have "hd (dropWhile ?P text) = CHR ''{''" using hd_dropWhile [of "?P" "text"] by simp
  then show "hd b = CHR ''{''" using fr bne by simp
qed

lemma dropWhile_to_first_brace:
  assumes "text = pre @ b @ post" and "CHR ''{'' \<notin> set pre" and "b \<noteq> []" and "hd b = CHR ''{''"
  shows "dropWhile (\<lambda>c. c \<noteq> CHR ''{'') text = b @ post"
proof -
  have "dropWhile (\<lambda>c. c \<noteq> CHR ''{'') (pre @ b @ post) = dropWhile (\<lambda>c. c \<noteq> CHR ''{'') (b @ post)"
    using assms(2) by (intro dropWhile_append2) auto
  also have "\<dots> = b @ post"
    using assms(3,4) by (cases b) auto
  finally show ?thesis using assms(1) by simp
qed

section \<open>Properties of the flows\<close>

lemma textToClassify_nonempty: "t \<noteq> [] \<Longrightarrow> textToClassify t \<noteq> []"
  by (simp add: textToClassify_def truncationMarker_def)

lemma trim_Nil [simp]: "trim [] = []"
  by (simp add: trim_def)

lemma all_dropWhile: "(\<forall>x \<in> set (dropWhile P s). P x) \<longleftrightarrow> (\<forall>x \<in> set s. P x)"
  by (induction s) auto

text \<open>The trimmed string is empty exactly when the string is white space throughout.\<close>

lemma trim_empty_iff: "trim s = [] \<longleftrightarrow> (\<forall>c \<in> set s. isWhiteSpace c)"
  by (simp add: trim_def all_dropWhile)

lemma extractTextFromFile_Inr:
  assumes "extractTextFromFile e w p m = Inr t"
  shows "t \<noteq> [] \<and> trim t \<noteq> [] \<and> p \<noteq> [] \<and> files w p \<noteq> None"
  using assms unfolding extractTextFromFile_def
  by (auto split: if_splits sum.splits looked_up.splits)

text \<open>
  The \<^verbatim>\<open>finally\<close> block: however \<^verbatim>\<open>processDocument\<close> ends, it has handed the upload's
  path to \<^verbatim>\<open>fs.unlink\<close>, and the file is gone unless the file system refused.
\<close>

lemma processDocument_cleans_up:
  assumes "file_path f \<noteq> []"
  shows "file_path f \<in> set (unlinked (snd (processDocument c e (Some f) w)))
       \<and> (\<not> unlinkFails e (file_path f) \<longrightarrow>
            files (snd (processDocument c e (Some f) w)) (file_path f) = None)"
  using assms unfolding processDocument_def Let_def cleanupTempFile_def
  by (simp split: prod.splits sum.splits)

text \<open>Past its checks and the extraction, each flow is a call of \<^verbatim>\<open>classifyDocument\<close>.\<close>

lemma processDocument_reaches_classification:
  assumes "file_size f \<le> maxFileSize c" and "file_mimetype f \<in> set (allowedFileTypes c)"
      and "extractTextFromFile e w (file_path f) (file_mimetype f) = Inr t"
  shows "processDocument c e (Some f) w =
           (case classifyDocument e (JStr (textToClassify t)) w of
              (Inl err, w') \<Rightarrow> (Inl err, cleanupTempFile e w' (file_path f))
            | (Inr classification, w') \<Rightarrow>
                (Inr (buildClassificationResult classification
                        [(''fileName'', JStr (file_originalname f)),
                         (''fileSize'', JNum (Fin (real (file_size f)))),
                         (''mimeType'', JStr (file_mimetype f)),
                         (''uploadedAt'', JStr (toISOString_now e))]),
                 cleanupTempFile e w' (file_path f)))"
proof -
  have p: "file_path f \<noteq> []" using extractTextFromFile_Inr [OF assms(3)] by simp
  obtain res w' where cd: "classifyDocument e (JStr (textToClassify t)) w = (res, w')"
    by (cases "classifyDocument e (JStr (textToClassify t)) w")
  show ?thesis
  proof (cases res)
    case (Inl err)
    then have "instanceofApiError err"
      using classifyDocument_error_is_ApiError [of e "JStr (textToClassify t)" w err] cd by simp
    then have "rethrow ''Failed to process document'' err = err" by (simp add: rethrow_def)
    then show ?thesis
      using assms p cd Inl unfolding processDocument_def Let_def by simp
  next
    case (Inr r)
    then show ?thesis
      using assms p cd unfolding processDocument_def Let_def by simp
  qed
qed

lemma classifyText_reaches_classification:
  assumes "trim t \<noteq> []"
  shows "classifyText e (JStr t) w =
           (case classifyDocument e (JStr (textToClassify t)) w of
              (Inl err, w') \<Rightarrow> (Inl err, w')
            | (Inr classification, w') \<Rightarrow>
                (Inr (buildClassificationResult classification
                        [(''contentLength'', JNum (Fin (real (length t)))),
                         (''classifiedAt'', JStr (toISOString_now e))]), w'))"
proof -
  have t: "t \<noteq> []" using assms by auto
  obtain res w' where cd: "classifyDocument e (JStr (textToClassify t)) w = (res, w')"
    by (cases "classifyDocument e (JStr (textToClassify t)) w")
  show ?thesis
  proof (cases res)
    case (Inl err)
    then have "instanceofApiError err"
      using classifyDocument_error_is_ApiError [of e "JStr (textToClassify t)" w err] cd by simp
    then have "rethrow ''Failed to classify text content'' err = err" by (simp add: rethrow_def)
    then show ?thesis
      using assms t cd Inl unfolding classifyText_def by simp
  next
    case (Inr r)
    then show ?thesis
      using assms t cd unfolding classifyText_def by simp
  qed
qed

section \<open>Properties of the routing advisor\<close>

text \<open>
  The thresholds of the configuration are the doubles of the literals \<^verbatim>\<open>0.8\<close> and \<^verbatim>\<open>0.6\<close>: the
  first lies just above eight tenths, the second just below six tenths.
\<close>

lemma confidenceLevels_values:
  "confidenceLevels_HIGH = Fin (3602879701896397 / 4503599627370496)"
  "confidenceLevels_MEDIUM = Fin (5404319552844595 / 9007199254740992)"
  by code_simp+

text \<open>
  The bands of \<^verbatim>\<open>getConfidenceLevel\<close>: high from 0.8, medium from 0.6, low below and
  for \<open>NaN\<close>.
\<close>

lemma getConfidenceLevel_bands:
  "getConfidenceLevel (Fin x) =
     (if 3602879701896397 / 4503599627370496 \<le> x then ''high''
      else if 5404319552844595 / 9007199254740992 \<le> x then ''medium'' else ''low'')"
  "getConfidenceLevel NaN = ''low''"
  "getConfidenceLevel PosInf = ''high''"
  "getConfidenceLevel NegInf = ''low''"
  by (auto simp: getConfidenceLevel_def js_ge_def confidenceLevels_values)


text \<open>
  The levels at the doubles of some literals: \<^verbatim>\<open>0.8\<close> is high, \<^verbatim>\<open>0.79\<close> and \<^verbatim>\<open>0.6\<close> are medium,
  \<^verbatim>\<open>0.59\<close> is low.
\<close>

lemma getConfidenceLevel_examples:
  "map getConfidenceLevel
     [Fin 1, toDouble (8 / 10), toDouble (79 / 100), toDouble (6 / 10), toDouble (59 / 100),
      Fin 0] =
   [''high'', ''high'', ''medium'', ''medium'', ''low'', ''low'']"
  by code_simp


text \<open>The five departments the sanitizer lets through have their display names.\<close>

lemma deptName_validDepartments:
  "map deptName validDepartments =
     [''Finance Department'', ''Procurement Department'', ''Legal Department'',
      ''Operations Department'', ''General Administration'']"
  by code_simp

text \<open>None of the five departments is the name of an inherited property.\<close>

lemma validDepartments_own:
  assumes "department \<in> set validDepartments"
  shows "department \<notin> fst ` set Object_prototype_functions" and "department \<noteq> ''__proto__''"
  using assms by (auto simp: validDepartments_def Object_prototype_functions_def)


section \<open>The services at work\<close>

lemma classifyDocument_candidate:
  assumes "content \<noteq> []" and "generateContent e (classificationPrompt @ content) = Inr text"
      and "validateClassificationResult (parseReply e text) = Inr r"
  shows "classifyDocument e (JStr content) w =
           (Inr r, w\<lparr>prompts := prompts w @ [classificationPrompt @ content]\<rparr>)"
  using assms by (simp add: classifyDocument_def Let_def)

lemma example_generateContent: "generateContent (exampleEnv reply) prompt = reply"
  by (simp add: exampleEnv_def)

lemma example_text:
  "textToClassify ''Invoice #123, Amount: $500'' = ''Invoice #123, Amount: $500''"
  "trim ''Invoice #123, Amount: $500'' \<noteq> []"
  by code_simp+

lemma example_extraction:
  "extractTextFromFile (exampleEnv reply) exampleWorld (file_path exampleFile)
     (file_mimetype exampleFile) = Inr ''Invoice #123, Amount: $500''"
  unfolding exampleEnv_def exampleWorld_def exampleFile_def by code_simp

text \<open>
  An uploaded text file, and a model that answers with the JSON the prompt asks for: the
  result carries the level \<^verbatim>\<open>high\<close> and recommends automatic routing to the Finance
  Department, and the upload is gone.
\<close>

lemma upload_classified_as_invoice:
  fixes reply :: string
  defines "reply \<equiv> ''{\"documentType\": \"invoice\", \"confidence\": 0.92, \"department\": \"finance\", \"routingConfidence\": 0.9}''"
  shows "processDocument config (exampleEnv (Inr reply)) (Some exampleFile) exampleWorld =
   (Inr [(''fileName'', JStr ''invoice.txt''), (''fileSize'', JNum (Fin 26)),
         (''mimeType'', JStr ''text/plain''),
         (''uploadedAt'', JStr ''2026-01-01T00:00:00.000Z''),
         (''documentType'', JStr ''invoice''),
         (''confidence'', JNum (toDouble (23 / 25))),
         (''department'', JStr ''finance''),
         (''routingConfidence'', JNum (toDouble (9 / 10))),
         (''extractedData'', JObj []),
         (''reasoning'', JStr ''Classification completed''),
         (''suggestedActions'', JArr []),
         (''confidenceLevel'', JStr ''high''),
         (''routingRecommendation'',
            JStr ''Recommended for automatic routing to Finance Department'')],
    cleanupTempFile (exampleEnv (Inr reply))
      (exampleWorld\<lparr>prompts := [classificationPrompt @ ''Invoice #123, Amount: $500'']\<rparr>)
      ''public/temp/invoice-1.txt'')"
proof -
  let ?e = "exampleEnv (Inr reply)"
  let ?r = "[(''documentType'', JStr ''invoice''), (''confidence'', JNum (toDouble (23 / 25))),
             (''department'', JStr ''finance''), (''routingConfidence'', JNum (toDouble (9 / 10))),
             (''extractedData'', JObj []), (''reasoning'', JStr ''Classification completed''),
             (''suggestedActions'', JArr [])]"
  have s: "validateClassificationResult (parseReply ?e reply) = Inr ?r"
    unfolding reply_def exampleEnv_def by code_simp
  have cd: "classifyDocument ?e (JStr ''Invoice #123, Amount: $500'') exampleWorld =
              (Inr ?r, exampleWorld\<lparr>prompts := prompts exampleWorld @
                 [classificationPrompt @ ''Invoice #123, Amount: $500'']\<rparr>)"
    by (rule classifyDocument_candidate [OF _ example_generateContent s]) simp
  have b: "buildClassificationResult ?r
             [(''fileName'', JStr ''invoice.txt''), (''fileSize'', JNum (Fin 26)),
              (''mimeType'', JStr ''text/plain''),
              (''uploadedAt'', JStr ''2026-01-01T00:00:00.000Z'')] =
           [(''fileName'', JStr ''invoice.txt''), (''fileSize'', JNum (Fin 26)),
            (''mimeType'', JStr ''text/plain''),
            (''uploadedAt'', JStr ''2026-01-01T00:00:00.000Z''),
            (''documentType'', JStr ''invoice''),
            (''confidence'', JNum (toDouble (23 / 25))),
            (''department'', JStr ''finance''),
            (''routingConfidence'', JNum (toDouble (9 / 10))),
            (''extractedData'', JObj []),
            (''reasoning'', JStr ''Classification completed''),
            (''suggestedActions'', JArr []),
            (''confidenceLevel'', JStr ''high''),
            (''routingRecommendation'',
               JStr ''Recommended for automatic routing to Finance Department'')]"
    by code_simp
  have m: "file_originalname exampleFile = ''invoice.txt''" "file_size exampleFile = 26"
      "file_mimetype exampleFile = ''text/plain''"
      "file_path exampleFile = ''public/temp/invoice-1.txt''"
      "toISOString_now ?e = ''2026-01-01T00:00:00.000Z''" "prompts exampleWorld = []"
    by (simp_all add: exampleFile_def exampleEnv_def exampleWorld_def)
  have h3: "file_size exampleFile \<le> maxFileSize config"
    by (simp add: exampleFile_def config_def)
  have h4: "file_mimetype exampleFile \<in> set (allowedFileTypes config)"
    by (simp add: exampleFile_def config_def)
  show ?thesis
    unfolding processDocument_reaches_classification [OF h3 h4 example_extraction]
      example_text(1) cd
    using b m by simp
qed

text \<open>
  A reply in plain prose: the result is the fallback candidate with its level \<^verbatim>\<open>low\<close>.
\<close>

lemma prose_reply_gives_fallback:
  "fst (classifyText (exampleEnv (Inr ''Sorry, I cannot classify this document.''))
          (JStr ''Invoice #123, Amount: $500'') exampleWorld) =
   Inr ([(''contentLength'', JNum (Fin 26)),
         (''classifiedAt'', JStr ''2026-01-01T00:00:00.000Z'')] @
        fallbackClassification @
        [(''confidenceLevel'', JStr ''low''),
         (''routingRecommendation'',
            JStr ''Low confidence routing to General Administration - Manual review required'')])"
proof -
  let ?e = "exampleEnv (Inr ''Sorry, I cannot classify this document.'')"
  have j: "jsonMatch ''Sorry, I cannot classify this document.'' = None" by code_simp
  have s: "validateClassificationResult
             (parseReply ?e ''Sorry, I cannot classify this document.'') =
           Inr fallbackClassification"
    using j by (simp add: parseReply_def sanitize_fallback)
  have cd: "classifyDocument ?e (JStr ''Invoice #123, Amount: $500'') exampleWorld =
              (Inr fallbackClassification, exampleWorld\<lparr>prompts := prompts exampleWorld @
                 [classificationPrompt @ ''Invoice #123, Amount: $500'']\<rparr>)"
    by (rule classifyDocument_candidate [OF _ example_generateContent s]) simp
  have b: "buildClassificationResult fallbackClassification
             [(''contentLength'', JNum (Fin 26)),
              (''classifiedAt'', JStr ''2026-01-01T00:00:00.000Z'')] =
           [(''contentLength'', JNum (Fin 26)),
            (''classifiedAt'', JStr ''2026-01-01T00:00:00.000Z'')] @
           fallbackClassification @
           [(''confidenceLevel'', JStr ''low''),
            (''routingRecommendation'',
               JStr ''Low confidence routing to General Administration - Manual review required'')]"
    by code_simp
  have m: "toISOString_now ?e = ''2026-01-01T00:00:00.000Z''"
    by (simp add: exampleEnv_def)
  show ?thesis
    unfolding classifyText_reaches_classification [OF example_text(2)] example_text(1) cd
    using b m by simp
qed

text \<open>The empty text is refused before the model is asked.\<close>

lemma empty_text_rejected:
  "classifyText (exampleEnv (Inr ''{}'')) (JStr []) exampleWorld =
     (Inl (ApiError 400 ''Text content is required''), exampleWorld)"
  by (simp add: classifyText_def rethrow_ApiError)

section \<open>The claims\<close>

text \<open>
  C1. The claim: the sanitizer is total, no field value makes it raise. The code calls
  \<^verbatim>\<open>toLowerCase\<close> on every truthy \<^verbatim>\<open>documentType\<close>: a number there makes the sanitizer
  throw a \<^verbatim>\<open>TypeError\<close>, and a reply of the model that decodes to such a candidate makes
  \<^verbatim>\<open>classifyDocument\<close> fail with status 500. Lemma \<open>validateClassificationResult_eq\<close>
  says on which candidates the sanitizer throws.
\<close>

theorem sanitize_throws_on_numeric_documentType:
  "validateClassificationResult [(''documentType'', JNum (Fin 42))] =
     Inl (TypeError ''result.documentType.toLowerCase is not a function'')
   \<and> JSON_parse_object ''{\"documentType\": 42}'' = Some [(''documentType'', JNum (Fin 42))]
   \<and> fst (classifyDocument (exampleEnv (Inr ''{\"documentType\": 42}'')) (JStr ''Invoice #123'')
            exampleWorld) =
       Inl (ApiError 500 ''Failed to classify document with AI model'')"
proof -
  let ?reply = "''{\"documentType\": 42}''"
  let ?e = "exampleEnv (Inr ?reply)"
  have s: "validateClassificationResult [(''documentType'', JNum (Fin 42))] =
             Inl (TypeError ''result.documentType.toLowerCase is not a function'')"
    by (simp add: validateClassificationResult_def getProp_def)
  have p: "JSON_parse_object ?reply = Some [(''documentType'', JNum (Fin 42))]"
    by code_simp
  have m: "jsonMatch ?reply = Some ?reply"
    by code_simp
  have r: "parseReply ?e ?reply = [(''documentType'', JNum (Fin 42))]"
    using m p by (simp add: parseReply_def exampleEnv_def)
  have g: "generateContent ?e (classificationPrompt @ ''Invoice #123'') = Inr ?reply"
    by (simp add: exampleEnv_def)
  have "fst (classifyDocument ?e (JStr ''Invoice #123'') exampleWorld) =
          Inl (ApiError 500 ''Failed to classify document with AI model'')"
    using classifyDocument_reply [OF _ g, of exampleWorld] r s by simp
  then show ?thesis using s p by simp
qed

text \<open>
  C2. When the model's reply holds no JSON object, or holds one that does not decode,
  \<^verbatim>\<open>classifyDocument\<close> does not fail: it returns exactly the fixed fallback candidate
  (which the sanitizer leaves as it is).
\<close>

theorem malformed_reply_yields_fallback:
  assumes "content \<noteq> []"
      and "generateContent e (classificationPrompt @ content) = Inr text"
      and "jsonMatch text = None \<or> (\<exists>m. jsonMatch text = Some m \<and> JSON_parse e m = None)"
  shows "fst (classifyDocument e (JStr content) w) =
           Inr [(''documentType'', JStr ''other''),
                (''confidence'', JNum (toDouble (3 / 10))),
                (''department'', JStr ''general''),
                (''routingConfidence'', JNum (toDouble (3 / 10))),
                (''extractedData'',
                   JObj [(''note'', JStr ''AI could not classify this document properly'')]),
                (''reasoning'',
                   JStr ''Classification failed due to non-JSON response from AI model''),
                (''suggestedActions'',
                   JArr [JStr ''Manual review required'',
                         JStr ''Check document format and content''])]"
proof -
  have "parseReply e text = fallbackClassification"
    using assms(3) by (rule parseReply_fallback)
  then have "fst (classifyDocument e (JStr content) w) = Inr fallbackClassification"
    using classifyDocument_reply [OF assms(1,2)] by (simp add: sanitize_fallback)
  then show ?thesis by (simp add: fallbackClassification_def)
qed

theorem malformed_reply_yields_fallback_witness:
  "fst (classifyDocument (exampleEnv (Inr ''{documentType: invoice}'')) (JStr ''Invoice #123'')
          exampleWorld) =
     Inr [(''documentType'', JStr ''other''),
          (''confidence'', JNum (toDouble (3 / 10))),
          (''department'', JStr ''general''),
          (''routingConfidence'', JNum (toDouble (3 / 10))),
          (''extractedData'',
             JObj [(''note'', JStr ''AI could not classify this document properly'')]),
          (''reasoning'',
             JStr ''Classification failed due to non-JSON response from AI model''),
          (''suggestedActions'',
             JArr [JStr ''Manual review required'',
                   JStr ''Check document format and content''])]"
proof -
  let ?e = "exampleEnv (Inr ''{documentType: invoice}'')"
  have h1: "''Invoice #123'' \<noteq> []" by simp
  have h2: "generateContent ?e (classificationPrompt @ ''Invoice #123'') =
              Inr ''{documentType: invoice}''"
    by (simp add: exampleEnv_def)
  have m: "jsonMatch ''{documentType: invoice}'' = Some ''{documentType: invoice}''"
    by code_simp
  have p: "JSON_parse ?e ''{documentType: invoice}'' = None"
    unfolding exampleEnv_def by code_simp
  have h3: "jsonMatch ''{documentType: invoice}'' = None \<or>
            (\<exists>m. jsonMatch ''{documentType: invoice}'' = Some m \<and> JSON_parse ?e m = None)"
    using m p by simp
  show ?thesis by (rule malformed_reply_yields_fallback [OF h1 h2 h3])
qed

text \<open>
  C3. The claim: for every candidate the sanitizer puts 0.5 in the place of a confidence that
  is not a number. The code hands the value to \<^verbatim>\<open>parseFloat\<close>, which converts it to a string
  first: on a confidence that is an object with an own property \<^verbatim>\<open>toString\<close> that is not a
  function the conversion throws a \<^verbatim>\<open>TypeError\<close>, so the sanitizer returns no result, and a
  reply of the model that decodes to such a candidate makes \<^verbatim>\<open>classifyDocument\<close> fail with
  status 500. A candidate whose \<^verbatim>\<open>documentType\<close> is a number gets no confidence either,
  whatever its own: the sanitizer throws before it reads it. Lemma \<open>sanitizer_confidence\<close>
  proves the claim on the candidates the sanitizer returns on.
\<close>

theorem sanitize_throws_on_object_confidence:
  "validateClassificationResult [(''confidence'', JObj [(''toString'', JNum (Fin 1))])] =
     Inl (TypeError ''Cannot convert object to primitive value'')
   \<and> validateClassificationResult
       [(''documentType'', JNum (Fin 42)), (''confidence'', JStr ''high'')] =
     Inl (TypeError ''result.documentType.toLowerCase is not a function'')
   \<and> JSON_parse_object ''{\"confidence\": {\"toString\": 1}}'' =
       Some [(''confidence'', JObj [(''toString'', JNum (Fin 1))])]
   \<and> fst (classifyDocument (exampleEnv (Inr ''{\"confidence\": {\"toString\": 1}}''))
            (JStr ''Invoice #123'') exampleWorld) =
       Inl (ApiError 500 ''Failed to classify document with AI model'')"
proof -
  let ?reply = "''{\"confidence\": {\"toString\": 1}}''"
  let ?e = "exampleEnv (Inr ?reply)"
  let ?c = "[(''confidence'', JObj [(''toString'', JNum (Fin 1))])]"
  have s: "validateClassificationResult ?c =
             Inl (TypeError ''Cannot convert object to primitive value'')"
    by (simp add: validateClassificationResult_eq getProp_def lowerCaseable_def)
  have s': "validateClassificationResult
              [(''documentType'', JNum (Fin 42)), (''confidence'', JStr ''high'')] =
            Inl (TypeError ''result.documentType.toLowerCase is not a function'')"
    by (simp add: validateClassificationResult_def getProp_def)
  have p: "JSON_parse_object ?reply = Some ?c"
    by code_simp
  have m: "jsonMatch ?reply = Some ?reply"
    by code_simp
  have r: "parseReply ?e ?reply = ?c"
    using m p by (simp add: parseReply_def exampleEnv_def)
  have g: "generateContent ?e (classificationPrompt @ ''Invoice #123'') = Inr ?reply"
    by (simp add: exampleEnv_def)
  have "fst (classifyDocument ?e (JStr ''Invoice #123'') exampleWorld) =
          Inl (ApiError 500 ''Failed to classify document with AI model'')"
    using classifyDocument_reply [OF _ g, of exampleWorld] r s by simp
  then show ?thesis using s s' p by simp
qed

text \<open>
  C4. The claim: for every candidate a \<^verbatim>\<open>documentType\<close> string outside the seven document
  types comes out as \<^verbatim>\<open>other\<close>, and a \<^verbatim>\<open>department\<close> string outside the five departments as
  \<^verbatim>\<open>general\<close>. The candidate with the \<^verbatim>\<open>documentType\<close> string \<^verbatim>\<open>memo\<close> and the department 7
  gets no \<^verbatim>\<open>documentType\<close> at all: the code calls \<^verbatim>\<open>toLowerCase\<close> on the department, the
  sanitizer throws a \<^verbatim>\<open>TypeError\<close>, and a reply of the model that decodes to this candidate
  makes \<^verbatim>\<open>classifyDocument\<close> fail with status 500. Lemma \<open>sanitizer_enums\<close> proves the claim
  on the candidates the sanitizer returns on.
\<close>

theorem sanitize_throws_on_numeric_department:
  "validateClassificationResult [(''documentType'', JStr ''memo''), (''department'', JNum (Fin 7))] =
     Inl (TypeError ''result.department.toLowerCase is not a function'')
   \<and> JSON_parse_object ''{\"documentType\": \"memo\", \"department\": 7}'' =
       Some [(''documentType'', JStr ''memo''), (''department'', JNum (Fin 7))]
   \<and> fst (classifyDocument
            (exampleEnv (Inr ''{\"documentType\": \"memo\", \"department\": 7}''))
            (JStr ''Invoice #123'') exampleWorld) =
       Inl (ApiError 500 ''Failed to classify document with AI model'')"
proof -
  let ?reply = "''{\"documentType\": \"memo\", \"department\": 7}''"
  let ?e = "exampleEnv (Inr ?reply)"
  let ?c = "[(''documentType'', JStr ''memo''), (''department'', JNum (Fin 7))]"
  have s: "validateClassificationResult ?c =
             Inl (TypeError ''result.department.toLowerCase is not a function'')"
    by code_simp
  have p: "JSON_parse_object ?reply = Some ?c"
    by code_simp
  have m: "jsonMatch ?reply = Some ?reply"
    by code_simp
  have r: "parseReply ?e ?reply = ?c"
    using m p by (simp add: parseReply_def exampleEnv_def)
  have g: "generateContent ?e (classificationPrompt @ ''Invoice #123'') = Inr ?reply"
    by (simp add: exampleEnv_def)
  have "fst (classifyDocument ?e (JStr ''Invoice #123'') exampleWorld) =
          Inl (ApiError 500 ''Failed to classify document with AI model'')"
    using classifyDocument_reply [OF _ g, of exampleWorld] r s by simp
  then show ?thesis using s p by simp
qed

text \<open>
  C5, as the claim states it, fails: when the text after the object holds a closing brace,
  the substring handed to the decoder runs on to that brace; it is not the first balanced
  object, it does not decode, and the candidate is the fallback.
\<close>

theorem first_balanced_object_not_decoded:
  "jsonMatch ''{\"documentType\": \"invoice\"} Note: } closes the object.'' =
     Some ''{\"documentType\": \"invoice\"} Note: }''
   \<and> firstBalancedObject ''{\"documentType\": \"invoice\"} Note: } closes the object.'' =
     Some ''{\"documentType\": \"invoice\"}''
   \<and> JSON_parse_object ''{\"documentType\": \"invoice\"}'' =
     Some [(''documentType'', JStr ''invoice'')]
   \<and> parseReply (exampleEnv (Inr ''{\"documentType\": \"invoice\"} Note: } closes the object.''))
       ''{\"documentType\": \"invoice\"} Note: } closes the object.'' = fallbackClassification
   \<and> fallbackClassification \<noteq> [(''documentType'', JStr ''invoice'')]"
proof -
  have a: "jsonMatch ''{\"documentType\": \"invoice\"} Note: } closes the object.'' =
             Some ''{\"documentType\": \"invoice\"} Note: }''"
    by code_simp
  have b: "firstBalancedObject ''{\"documentType\": \"invoice\"} Note: } closes the object.'' =
             Some ''{\"documentType\": \"invoice\"}''"
    by code_simp
  have c: "JSON_parse_object ''{\"documentType\": \"invoice\"}'' =
             Some [(''documentType'', JStr ''invoice'')]"
    by code_simp
  have d: "JSON_parse_object ''{\"documentType\": \"invoice\"} Note: }'' = None"
    by code_simp
  have e: "fallbackClassification \<noteq> [(''documentType'', JStr ''invoice'')]"
    by (simp add: fallbackClassification_def)
  show ?thesis using a b c d e by (simp add: parseReply_def exampleEnv_def)
qed

text \<open>
  C5, amended. The gateway hands to the decoder the substring of the reply from its first
  opening brace to its last closing brace, and the candidate is what the decoder makes of
  that substring (the fallback when it makes nothing). The substring is the first balanced
  object exactly when no closing brace follows that object in the reply.
\<close>

theorem reply_span_first_to_last_brace:
  assumes "jsonMatch text = Some m"
  shows "(\<exists>pre post. text = pre @ m @ post \<and> CHR ''{'' \<notin> set pre \<and> CHR ''}'' \<notin> set post)
       \<and> hd m = CHR ''{'' \<and> last m = CHR ''}''
       \<and> parseReply e text =
           (case JSON_parse e m of None \<Rightarrow> fallbackClassification | Some candidate \<Rightarrow> candidate)
       \<and> (\<forall>b pre post. firstBalancedObject text = Some b \<and> text = pre @ b @ post \<and>
                        CHR ''{'' \<notin> set pre \<longrightarrow> (m = b \<longleftrightarrow> CHR ''}'' \<notin> set post))"
proof -
  have 1: "\<exists>pre post. text = pre @ m @ post \<and> CHR ''{'' \<notin> set pre \<and> CHR ''}'' \<notin> set post"
    using jsonMatch_Some(1) [OF assms] by blast
  have 2: "hd m = CHR ''{''" and 3: "last m = CHR ''}''"
    using jsonMatch_Some(3,4) [OF assms] by simp_all
  have 4: "parseReply e text =
             (case JSON_parse e m of None \<Rightarrow> fallbackClassification | Some candidate \<Rightarrow> candidate)"
    using assms by (simp add: parseReply_def)
  have 5: "m = b \<longleftrightarrow> CHR ''}'' \<notin> set post"
    if fb: "firstBalancedObject text = Some b" and tx: "text = pre @ b @ post"
      and pre: "CHR ''{'' \<notin> set pre" for b pre post
  proof -
    have "dropWhile (\<lambda>c. c \<noteq> CHR ''{'') text = b @ post"
      using tx pre firstBalancedObject_Some [OF fb] by (rule dropWhile_to_first_brace)
    then have "drop (length b) (dropWhile (\<lambda>c. c \<noteq> CHR ''{'') text) = post" by simp
    then show ?thesis using jsonMatch_balanced [OF assms fb] by auto
  qed
  show ?thesis using 1 2 3 4 5 by blast
qed

theorem reply_span_first_to_last_brace_witness:
  "jsonMatch ''Here is the result: {\"documentType\": \"invoice\"} Hope this helps.'' =
     Some ''{\"documentType\": \"invoice\"}''
   \<and> parseReply (exampleEnv (Inr ''Here is the result: {\"documentType\": \"invoice\"} Hope this helps.''))
       ''Here is the result: {\"documentType\": \"invoice\"} Hope this helps.'' =
     [(''documentType'', JStr ''invoice'')]"
proof -
  let ?t = "''Here is the result: {\"documentType\": \"invoice\"} Hope this helps.''"
  have h: "jsonMatch ?t = Some ''{\"documentType\": \"invoice\"}''"
    by code_simp
  have c: "JSON_parse (exampleEnv (Inr ?t)) ''{\"documentType\": \"invoice\"}'' =
             Some [(''documentType'', JStr ''invoice'')]"
    unfolding exampleEnv_def by code_simp
  show ?thesis
    using reply_span_first_to_last_brace [OF h, of "exampleEnv (Inr ?t)"] h c by simp
qed

text \<open>
  C6. A text longer than 50000 characters is cut to its first 50000 characters followed by
  the marker, so what is classified has the length of the cap plus that of the marker and
  ends with the marker; a shorter text is classified as it is. Both flows send the model the
  prompt followed by the text cut this way: the file flow the extracted text, the text flow
  the text it was given.
\<close>

theorem truncation_before_classification:
  assumes "length long > 50000" and "length short \<le> 50000"
      and "file_size f \<le> maxFileSize c" and "file_mimetype f \<in> set (allowedFileTypes c)"
      and "extractTextFromFile e w (file_path f) (file_mimetype f) = Inr extracted"
      and "trim given \<noteq> []"
  shows "length (textToClassify long) = 50000 + length ''\<newline>...(truncated)''
       \<and> take 50000 (textToClassify long) = take 50000 long
       \<and> drop 50000 (textToClassify long) = ''\<newline>...(truncated)''
       \<and> textToClassify short = short
       \<and> prompts (snd (processDocument c e (Some f) w)) =
           prompts w @ [classificationPrompt @ textToClassify extracted]
       \<and> prompts (snd (classifyText e (JStr given) w)) =
           prompts w @ [classificationPrompt @ textToClassify given]"
proof -
  have l: "textToClassify long = take 50000 long @ ''\<newline>...(truncated)''"
    using assms(1) by (simp add: textToClassify_def maxTextLength_def truncationMarker_def)
  have lt: "length (take 50000 long) = 50000" using assms(1) by simp
  have 1: "length (textToClassify long) = 50000 + length ''\<newline>...(truncated)''"
    unfolding l using lt by simp
  have 2: "take 50000 (textToClassify long) = take 50000 long"
    unfolding l using lt by simp
  have 3: "drop 50000 (textToClassify long) = ''\<newline>...(truncated)''"
    unfolding l using lt by simp
  have 4: "textToClassify short = short"
    using assms(2) by (simp add: textToClassify_def maxTextLength_def)
  have ex: "extracted \<noteq> []" using extractTextFromFile_Inr [OF assms(5)] by simp
  have gv: "given \<noteq> []" using assms(6) by auto
  have 5: "prompts (snd (processDocument c e (Some f) w)) =
             prompts w @ [classificationPrompt @ textToClassify extracted]"
    using classifyDocument_prompts [OF textToClassify_nonempty [OF ex], of e w]
    unfolding processDocument_reaches_classification [OF assms(3,4,5)]
    by (cases "classifyDocument e (JStr (textToClassify extracted)) w")
       (auto simp: cleanupTempFile_def split: sum.splits)
  have 6: "prompts (snd (classifyText e (JStr given) w)) =
             prompts w @ [classificationPrompt @ textToClassify given]"
    using classifyDocument_prompts [OF textToClassify_nonempty [OF gv], of e w]
    unfolding classifyText_reaches_classification [OF assms(6)]
    by (cases "classifyDocument e (JStr (textToClassify given)) w")
       (auto split: sum.splits)
  show ?thesis using 1 2 3 4 5 6 by blast
qed

theorem truncation_before_classification_witness:
  "length (textToClassify (replicate 50001 (CHR ''a''))) = 50015
   \<and> drop 50000 (textToClassify (replicate 50001 (CHR ''a''))) = ''\<newline>...(truncated)''
   \<and> textToClassify ''Invoice #123, Amount: $500'' = ''Invoice #123, Amount: $500''
   \<and> prompts (snd (processDocument config (exampleEnv (Inr ''{}'')) (Some exampleFile)
                     exampleWorld)) =
       [classificationPrompt @ ''Invoice #123, Amount: $500'']
   \<and> prompts (snd (classifyText (exampleEnv (Inr ''{}'')) (JStr (replicate 50001 (CHR ''a'')))
                     exampleWorld)) =
       [classificationPrompt @ replicate 50000 (CHR ''a'') @ ''\<newline>...(truncated)'']"
proof -
  let ?long = "replicate 50001 (CHR ''a'')" and ?short = "''Invoice #123, Amount: $500''"
  let ?e = "exampleEnv (Inr ''{}'')"
  have h1: "length ?long > 50000" by simp
  have h2: "length ?short \<le> 50000" by simp
  have h3: "file_size exampleFile \<le> maxFileSize config"
    by (simp add: exampleFile_def config_def)
  have h4: "file_mimetype exampleFile \<in> set (allowedFileTypes config)"
    by (simp add: exampleFile_def config_def)
  have h5: "extractTextFromFile ?e exampleWorld (file_path exampleFile)
              (file_mimetype exampleFile) = Inr ?short"
    by (rule example_extraction)
  have "\<not> isWhiteSpace (CHR ''a'')" by (simp add: isWhiteSpace_def)
  then have h6: "trim ?long \<noteq> []" by (simp add: trim_empty_iff)
  have t: "take 50000 ?long = replicate 50000 (CHR ''a'')" by simp
  have p: "prompts exampleWorld = []" by (simp add: exampleWorld_def)
  show ?thesis
    using truncation_before_classification [OF h1 h2 h3 h4 h5 h6] h1 t p
    by (simp add: textToClassify_def maxTextLength_def)
qed

text \<open>
  C7. When the call of the model fails, \<^verbatim>\<open>classifyDocument\<close> throws
  \<^verbatim>\<open>ApiError(500, 'Failed to classify document with AI model')\<close> and returns no
  candidate, the fallback included; both flows pass that error on to their caller, and the
  file flow has handed the uploaded file to \<^verbatim>\<open>fs.unlink\<close> when it does: the file is gone
  unless the file system refused.
\<close>

theorem call_failure_propagates:
  assumes "generateContent e (classificationPrompt @ textToClassify t) = Inl msg"
      and "file_size f \<le> maxFileSize c" and "file_mimetype f \<in> set (allowedFileTypes c)"
      and "extractTextFromFile e w (file_path f) (file_mimetype f) = Inr t"
  shows "fst (classifyDocument e (JStr (textToClassify t)) w) =
           Inl (ApiError 500 ''Failed to classify document with AI model'')
       \<and> fst (processDocument c e (Some f) w) =
           Inl (ApiError 500 ''Failed to classify document with AI model'')
       \<and> file_path f \<in> set (unlinked (snd (processDocument c e (Some f) w)))
       \<and> (\<not> unlinkFails e (file_path f) \<longrightarrow>
            files (snd (processDocument c e (Some f) w)) (file_path f) = None)
       \<and> fst (classifyText e (JStr t) w) =
           Inl (ApiError 500 ''Failed to classify document with AI model'')"
proof -
  have t: "t \<noteq> []" and tr: "trim t \<noteq> []" and p: "file_path f \<noteq> []"
    using extractTextFromFile_Inr [OF assms(4)] by simp_all
  have cd: "classifyDocument e (JStr (textToClassify t)) w =
              (Inl (ApiError 500 ''Failed to classify document with AI model''),
               w\<lparr>prompts := prompts w @ [classificationPrompt @ textToClassify t]\<rparr>)"
    using textToClassify_nonempty [OF t] assms(1) by (rule classifyDocument_call_fails)
  have 1: "fst (classifyDocument e (JStr (textToClassify t)) w) =
             Inl (ApiError 500 ''Failed to classify document with AI model'')"
    using cd by simp
  have 2: "fst (processDocument c e (Some f) w) =
             Inl (ApiError 500 ''Failed to classify document with AI model'')"
    unfolding processDocument_reaches_classification [OF assms(2,3,4)] cd by simp
  have 3: "fst (classifyText e (JStr t) w) =
             Inl (ApiError 500 ''Failed to classify document with AI model'')"
    unfolding classifyText_reaches_classification [OF tr] cd by simp
  show ?thesis using 1 2 3 processDocument_cleans_up [OF p, of c e w] by simp
qed

theorem call_failure_propagates_witness:
  "fst (processDocument config (exampleEnv (Inl ''fetch failed'')) (Some exampleFile)
          exampleWorld) =
     Inl (ApiError 500 ''Failed to classify document with AI model'')
   \<and> files exampleWorld ''public/temp/invoice-1.txt'' = Some ''Invoice #123, Amount: $500''
   \<and> files (snd (processDocument config (exampleEnv (Inl ''fetch failed'')) (Some exampleFile)
                   exampleWorld)) ''public/temp/invoice-1.txt'' = None
   \<and> fst (classifyText (exampleEnv (Inl ''fetch failed'')) (JStr ''Invoice #123, Amount: $500'')
            exampleWorld) =
     Inl (ApiError 500 ''Failed to classify document with AI model'')"
proof -
  let ?e = "exampleEnv (Inl ''fetch failed'')"
  have h1: "generateContent ?e (classificationPrompt @ textToClassify ''Invoice #123, Amount: $500'') =
              Inl ''fetch failed''"
    by (rule example_generateContent)
  have h2: "file_size exampleFile \<le> maxFileSize config"
    by (simp add: exampleFile_def config_def)
  have h3: "file_mimetype exampleFile \<in> set (allowedFileTypes config)"
    by (simp add: exampleFile_def config_def)
  have h4: "extractTextFromFile ?e exampleWorld (file_path exampleFile)
              (file_mimetype exampleFile) = Inr ''Invoice #123, Amount: $500''"
    by (rule example_extraction)
  have p: "file_path exampleFile = ''public/temp/invoice-1.txt''" by (simp add: exampleFile_def)
  have f: "files exampleWorld ''public/temp/invoice-1.txt'' = Some ''Invoice #123, Amount: $500''"
    by (simp add: exampleWorld_def)
  have u: "\<not> unlinkFails ?e (file_path exampleFile)" by (simp add: exampleEnv_def)
  show ?thesis using call_failure_propagates [OF h1 h2 h3 h4] p f u by simp
qed




text \<open>
  C9, as the claim states it, fails: an array with an element that is not a string is not
  replaced by the empty array.
\<close>

theorem suggestedActions_elements_not_checked:
  "validateClassificationResult [(''suggestedActions'', JArr [JNum (Fin 1), JNull])] =
     Inr [(''suggestedActions'', JArr [JNum (Fin 1), JNull]),
          (''documentType'', JStr ''other''), (''department'', JStr ''general''),
          (''confidence'', JNum (Fin (1 / 2))), (''routingConfidence'', JNum (Fin (1 / 2))),
          (''extractedData'', JObj []), (''reasoning'', JStr ''Classification completed'')]
   \<and> JArr [JNum (Fin 1), JNull] \<noteq> JArr []"
  by code_simp

text \<open>
  C9, amended. On every candidate the sanitizer accepts (see \<open>sanitizable\<close>) it returns a
  result whose \<^verbatim>\<open>suggestedActions\<close> is the candidate's value when that is an array,
  whatever its elements are, and the empty array when it is absent or anything else.
\<close>

theorem sanitize_suggestedActions_array_check:
  assumes "sanitizable r"
  shows "\<exists>r'. validateClassificationResult r = Inr r' \<and>
           getProp r' ''suggestedActions'' =
             (case getProp r ''suggestedActions'' of JArr xs \<Rightarrow> JArr xs | _ \<Rightarrow> JArr [])"
proof -
  have "getProp (sanitized r) ''suggestedActions'' =
          (case getProp r ''suggestedActions'' of JArr xs \<Rightarrow> JArr xs | _ \<Rightarrow> JArr [])"
    by (cases "getProp r ''suggestedActions''") (simp_all add: sanitized_suggestedActions)
  then show ?thesis using sanitizable_Inr [OF assms] by simp
qed

theorem sanitize_suggestedActions_array_check_witness:
  "let candidate = [(''suggestedActions'', JStr ''Review manually'')];
       result = [(''suggestedActions'', JArr []), (''documentType'', JStr ''other''),
                 (''department'', JStr ''general''), (''confidence'', JNum (Fin (1 / 2))),
                 (''routingConfidence'', JNum (Fin (1 / 2))), (''extractedData'', JObj []),
                 (''reasoning'', JStr ''Classification completed'')]
   in sanitizable candidate
    \<and> validateClassificationResult candidate = Inr result
    \<and> getProp candidate ''suggestedActions'' = JStr ''Review manually''
    \<and> getProp result ''suggestedActions'' = JArr []"
proof -
  let ?c = "[(''suggestedActions'', JStr ''Review manually'')]"
  let ?r = "[(''suggestedActions'', JArr []), (''documentType'', JStr ''other''),
             (''department'', JStr ''general''), (''confidence'', JNum (Fin (1 / 2))),
             (''routingConfidence'', JNum (Fin (1 / 2))), (''extractedData'', JObj []),
             (''reasoning'', JStr ''Classification completed'')]"
  have s: "sanitizable ?c"
    by (simp add: sanitizable_def lowerCaseable_def getProp_def)
  have h: "validateClassificationResult ?c = Inr ?r"
    by code_simp
  have g: "getProp ?c ''suggestedActions'' = JStr ''Review manually''" by (simp add: getProp_def)
  show ?thesis
    using s h sanitize_suggestedActions_array_check [OF s] g unfolding Let_def by simp
qed

text \<open>
  C10. \<^verbatim>\<open>classifyText\<close> throws an \<^verbatim>\<open>ApiError\<close> of status 400 for every argument that
  is not a string and for every string that holds nothing but white space, the empty string
  included; the state is as before, so the model has not been called. The middleware
  \<^verbatim>\<open>validateTextContent\<close> answers such a \<^verbatim>\<open>content\<close> with status 400 as well.
\<close>

theorem classifyText_rejects_blank:
  assumes "\<not> isString v \<or> (\<exists>s. v = JStr s \<and> (\<forall>ch \<in> set s. isWhiteSpace ch))"
  shows "classifyText e v w =
           (Inl (ApiError 400 (if isString v \<and> v \<noteq> JStr [] then ''Text content cannot be empty''
                               else ''Text content is required'')), w)
       \<and> prompts (snd (classifyText e v w)) = prompts w
       \<and> (\<exists>message. validateTextContent [(''content'', v)] = Some (400, message))"
proof -
  have 1: "classifyText e v w =
             (Inl (ApiError 400 (if isString v \<and> v \<noteq> JStr [] then ''Text content cannot be empty''
                                 else ''Text content is required'')), w)"
  proof (cases v)
    case (JStr s)
    then have "trim s = []" using assms by (simp add: trim_empty_iff)
    then show ?thesis using JStr by (simp add: classifyText_def rethrow_ApiError)
  qed (simp_all add: classifyText_def rethrow_ApiError)
  have 2: "\<exists>message. validateTextContent [(''content'', v)] = Some (400, message)"
  proof (cases v)
    case (JStr s)
    then have "trim s = []" using assms by (simp add: trim_empty_iff)
    then show ?thesis using JStr by (simp add: validateTextContent_def getProp_def)
  qed (simp_all add: validateTextContent_def getProp_def)
  show ?thesis using 1 2 by simp
qed

theorem classifyText_rejects_blank_witness:
  "classifyText (exampleEnv (Inr ''{}'')) (JStr '' \<newline>  '') exampleWorld =
     (Inl (ApiError 400 ''Text content cannot be empty''), exampleWorld)
   \<and> classifyText (exampleEnv (Inr ''{}'')) (JNum (Fin 7)) exampleWorld =
     (Inl (ApiError 400 ''Text content is required''), exampleWorld)"
proof -
  have w: "\<forall>ch \<in> set '' \<newline>  ''. isWhiteSpace ch" by (simp add: isWhiteSpace_def)
  have h1: "\<not> isString (JStr '' \<newline>  '') \<or>
            (\<exists>s. JStr '' \<newline>  '' = JStr s \<and> (\<forall>ch \<in> set s. isWhiteSpace ch))"
    using w by simp
  have h2: "\<not> isString (JNum (Fin 7)) \<or>
            (\<exists>s. JNum (Fin 7) = JStr s \<and> (\<forall>ch \<in> set s. isWhiteSpace ch))"
    by simp
  show ?thesis
    using classifyText_rejects_blank [OF h1, of "exampleEnv (Inr ''{}'')" exampleWorld]
          classifyText_rejects_blank [OF h2, of "exampleEnv (Inr ''{}'')" exampleWorld]
    by simp
qed

end
